theory Spec2Isabelle
  imports Complex_Main
begin

section \<open>JavaScript values\<close>

text \<open>
  A JavaScript number is an IEEE double. Every finite double is a rational number, and the
  operations used by the code below on numbers (comparison with the integer constants 5, 1000
  and 100000, \<^verbatim>\<open>Math.abs\<close>, \<^verbatim>\<open>toFixed\<close>, \<^verbatim>\<open>toExponential\<close>) are defined by ECMAScript on the
  exact mathematical value, so a finite number is modelled by its exact value; the three
  non-finite doubles are separate constructors. The two zeros are not distinguished: the code
  below treats them alike.
\<close>

datatype jsnum = Finite rat | NaN | PosInf | NegInf

datatype jsval = JUndefined | JNull | JBoolean bool | JNumber jsnum | JString string

datatype js_error = JsError string | JsTypeError string | JsReferenceError string

fun truthy :: "jsval \<Rightarrow> bool" where
  "truthy JUndefined = False"
| "truthy JNull = False"
| "truthy (JBoolean b) = b"
| "truthy (JNumber (Finite q)) = (q \<noteq> 0)"
| "truthy (JNumber NaN) = False"
| "truthy (JNumber PosInf) = True"
| "truthy (JNumber NegInf) = True"
| "truthy (JString s) = (s \<noteq> [])"

fun typeof_number :: "jsval \<Rightarrow> bool" where
  "typeof_number (JNumber n) = True"
| "typeof_number v = False"

subsection \<open>Decimal digits of a non-negative integer\<close>

definition digit_char :: "nat \<Rightarrow> char" where
  "digit_char n = ''0123456789'' ! (n mod 10)"

function digits :: "nat \<Rightarrow> string" where
  "digits n = (if n < 10 then [digit_char n] else digits (n div 10) @ [digit_char n])"
  by pat_completeness auto
termination
  by (relation "measure id") auto

declare digits.simps [simp del]

section \<open>The background poller: motorDataWorker.js\<close>

text \<open>
  The response of \<^verbatim>\<open>/api/robot-status\<close>, once parsed. Each top-level field is an object keyed by
  robot name or is absent; \<open>None\<close> stands for an absent (or null) field, which is falsy, and
  \<open>Some m\<close> for an object, which is truthy even when it has no keys. The values stored per robot
  are opaque to the pollers, hence the type parameter.
\<close>

record 'v payload =
  ping_status :: "(string \<rightharpoonup> 'v) option"
  robot_status :: "(string \<rightharpoonup> 'v) option"
  cleaning_device_status :: "(string \<rightharpoonup> 'v) option"
  motor_data :: "(string \<rightharpoonup> 'v) option"

text \<open>
  How one \<^verbatim>\<open>fetch\<close> followed by \<^verbatim>\<open>response.json()\<close> ends: the fetch rejects (with the error's
  message), the response is not ok (with its status), reading the body rejects, the body is the
  JSON value \<^verbatim>\<open>null\<close>, or the body is an object.
\<close>

datatype 'v fetch_outcome =
    FetchRejected string
  | NotOk nat
  | JsonRejected string
  | ParsedNull
  | Parsed "'v payload"

type_synonym timer_id = nat

text \<open>
  The messages between the worker and the page: \<^verbatim>\<open>{type: 'motorData', data: {motorData,
  pingStatus, timestamp}}\<close>, \<^verbatim>\<open>{type: 'error', error}\<close>, and any other message. A property
  of the data may be absent.
\<close>

datatype 'v out_msg =
    MotorDataMsg "(string \<rightharpoonup> 'v) option" "(string \<rightharpoonup> 'v) option" nat
  | ErrorMsg string
  | OtherMsg

datatype 'v effect =
    FetchIssued nat
  | PostMessage "'v out_msg"
  | SetTimeout timer_id nat
  | ClearTimeout timer_id
  | Uncaught js_error

text \<open>
  The module's variables (\<open>isRunning\<close>, \<open>pollTimer\<close>, \<open>consecutiveErrors\<close>) and what the runtime
  holds for it: the armed timeouts with their delays, the next timer handle, the invocations of
  \<^verbatim>\<open>pollMotorData\<close> suspended at their \<^verbatim>\<open>await\<close> (each with the timestamp it took), and the
  trace of what the module has done so far. \<^verbatim>\<open>POLLING_INTERVAL\<close> and \<^verbatim>\<open>MAX_CONSECUTIVE_ERRORS\<close>
  are declared \<^verbatim>\<open>const\<close> and are constants here. The counter \<open>consecutiveErrors\<close> is an integer
  far below \<open>2^53\<close>, where \<^verbatim>\<open>++\<close> is exact. The two \<^verbatim>\<open>await\<close>s of \<^verbatim>\<open>pollMotorData\<close> are taken as
  one suspension: nothing between them reads or writes the module's variables. Console output
  is left out.
\<close>

record 'v worker =
  isRunning :: bool
  pollTimer :: "timer_id option"
  consecutiveErrors :: nat
  pending :: "(timer_id \<times> nat) list"
  nextTimerId :: timer_id
  inflight :: "nat list"
  trace :: "'v effect list"

definition POLLING_INTERVAL :: nat where
  "POLLING_INTERVAL = 500"

definition MAX_CONSECUTIVE_ERRORS :: nat where
  "MAX_CONSECUTIVE_ERRORS = 3"

definition null_property_message :: string where
  "null_property_message = ''Cannot read properties of null''"

definition emit :: "'v effect \<Rightarrow> 'v worker \<Rightarrow> 'v worker" where
  "emit e w = w\<lparr>trace := trace w @ [e]\<rparr>"

text \<open>\<^verbatim>\<open>pollTimer = setTimeout(pollMotorData, d)\<close>: a fresh handle, armed with delay \<open>d\<close>.\<close>

definition setTimeout_poll :: "nat \<Rightarrow> 'v worker \<Rightarrow> 'v worker" where
  "setTimeout_poll d w =
     emit (SetTimeout (nextTimerId w) d)
       (w\<lparr>pollTimer := Some (nextTimerId w),
          pending := pending w @ [(nextTimerId w, d)],
          nextTimerId := Suc (nextTimerId w)\<rparr>)"

definition clearTimeout :: "timer_id \<Rightarrow> 'v worker \<Rightarrow> 'v worker" where
  "clearTimeout t w = emit (ClearTimeout t) (w\<lparr>pending := filter (\<lambda>p. fst p \<noteq> t) (pending w)\<rparr>)"

text \<open>
  \<^verbatim>\<open>if (pollTimer) { clearTimeout(pollTimer); }\<close>: a timer handle is a positive integer, so the
  test fails only while \<open>pollTimer\<close> is still \<^verbatim>\<open>null\<close>. The variable keeps the handle.
\<close>

definition clear_pollTimer :: "'v worker \<Rightarrow> 'v worker" where
  "clear_pollTimer w = (case pollTimer w of None \<Rightarrow> w | Some t \<Rightarrow> clearTimeout t w)"

text \<open>
  \<^verbatim>\<open>pollMotorData\<close> up to its first \<^verbatim>\<open>await\<close>: it takes the timestamp and issues the fetch.
\<close>

definition pollMotorData_issue :: "nat \<Rightarrow> 'v worker \<Rightarrow> 'v worker" where
  "pollMotorData_issue now w = emit (FetchIssued now) (w\<lparr>inflight := inflight w @ [now]\<rparr>)"

text \<open>
  The \<^verbatim>\<open>try\<close> block after the fetch has settled: \<open>Inl\<close> is the message of the error thrown
  into the \<^verbatim>\<open>catch\<close>, \<open>Inr\<close> the data that reaches \<^verbatim>\<open>postMessage\<close>. The loop over the robots
  between the two only logs.
\<close>

fun try_block :: "'v fetch_outcome \<Rightarrow> string + 'v payload" where
  "try_block (FetchRejected m) = Inl m"
| "try_block (NotOk status) = Inl (''Server responded with status: '' @ digits status)"
| "try_block (JsonRejected m) = Inl m"
| "try_block ParsedNull = Inl null_property_message"
| "try_block (Parsed d) =
     (case motor_data d of
        None \<Rightarrow> Inl ''Motor data missing in response''
      | Some m \<Rightarrow> Inr d)"

definition or_empty :: "('k \<rightharpoonup> 'v) option \<Rightarrow> ('k \<rightharpoonup> 'v)" where
  "or_empty x = (case x of None \<Rightarrow> Map.empty | Some m \<Rightarrow> m)"

definition after_try :: "nat \<Rightarrow> 'v fetch_outcome \<Rightarrow> 'v worker \<Rightarrow> 'v worker" where
  "after_try timestamp outcome w =
     (case try_block outcome of
        Inr d \<Rightarrow>
          emit (PostMessage (MotorDataMsg (Some (or_empty (motor_data d)))
                                          (Some (or_empty (ping_status d))) timestamp))
            (w\<lparr>consecutiveErrors := 0\<rparr>)
      | Inl m \<Rightarrow>
          emit (PostMessage (ErrorMsg m))
            (w\<lparr>consecutiveErrors := consecutiveErrors w + 1\<rparr>))"

definition nextInterval :: "'v worker \<Rightarrow> nat" where
  "nextInterval w =
     (if consecutiveErrors w > MAX_CONSECUTIVE_ERRORS then POLLING_INTERVAL * 2
      else POLLING_INTERVAL)"

text \<open>
  \<^verbatim>\<open>pollMotorData\<close> from the point where its fetch has settled to its end: the \<^verbatim>\<open>try\<close>/\<^verbatim>\<open>catch\<close>,
  then the reschedule under the \<open>isRunning\<close> guard.
\<close>

definition pollMotorData_resume :: "nat \<Rightarrow> 'v fetch_outcome \<Rightarrow> 'v worker \<Rightarrow> 'v worker" where
  "pollMotorData_resume timestamp outcome w =
     (let w1 = after_try timestamp outcome w
      in if isRunning w1 then setTimeout_poll (nextInterval w1) w1 else w1)"

definition startPolling :: "nat \<Rightarrow> 'v worker \<Rightarrow> 'v worker" where
  "startPolling now w = pollMotorData_issue now w"

text \<open>The command message \<^verbatim>\<open>e.data\<close>: its \<^verbatim>\<open>command\<close> and \<^verbatim>\<open>interval\<close> properties.\<close>

record command_msg =
  command :: jsval
  interval :: jsval

text \<open>
  The message handler. It returns the exception that leaves it, if any, and the state.
  In the \<^verbatim>\<open>setInterval\<close> case the statement \<^verbatim>\<open>POLLING_INTERVAL = newInterval\<close> assigns to a
  \<^verbatim>\<open>const\<close> binding, which throws a TypeError before anything else in that branch runs.
\<close>

definition on_message :: "nat \<Rightarrow> command_msg \<Rightarrow> 'v worker \<Rightarrow> js_error option \<times> 'v worker" where
  "on_message now msg w =
     (if command msg = JString ''start'' then
        (None, startPolling now (w\<lparr>isRunning := True\<rparr>))
      else if command msg = JString ''stop'' then
        (None, clear_pollTimer (w\<lparr>isRunning := False\<rparr>))
      else if command msg = JString ''poll'' then
        (None, pollMotorData_issue now (clear_pollTimer w))
      else if command msg = JString ''setInterval'' then
        (if truthy (interval msg) \<and> typeof_number (interval msg)
         then (Some (JsTypeError ''Assignment to constant variable.''), w)
         else (None, w))
      else (None, w))"

text \<open>
  What the worker's event loop can deliver: a command message, the expiry of an armed timeout,
  or the settling of the fetch of the \<open>k\<close>-th suspended invocation. The first two carry the
  clock reading that \<^verbatim>\<open>Date.now()\<close> would give. An exception that leaves the message handler is
  reported and the loop goes on.
\<close>

datatype 'v event =
    Message nat command_msg
  | TimerFired nat timer_id
  | FetchSettled nat "'v fetch_outcome"

fun step :: "'v event \<Rightarrow> 'v worker \<Rightarrow> 'v worker" where
  "step (Message now msg) w =
     (case on_message now msg w of
        (None, w') \<Rightarrow> w'
      | (Some err, w') \<Rightarrow> emit (Uncaught err) w')"
| "step (TimerFired now t) w =
     (if t \<in> fst ` set (pending w)
      then pollMotorData_issue now (w\<lparr>pending := filter (\<lambda>p. fst p \<noteq> t) (pending w)\<rparr>)
      else w)"
| "step (FetchSettled k outcome) w =
     (if k < length (inflight w)
      then pollMotorData_resume (inflight w ! k) outcome
             (w\<lparr>inflight := take k (inflight w) @ drop (Suc k) (inflight w)\<rparr>)
      else w)"

fun run :: "'v event list \<Rightarrow> 'v worker \<Rightarrow> 'v worker" where
  "run [] w = w"
| "run (e # es) w = run es (step e w)"

text \<open>
  Loading the module: the declarations of lines 4 to 8, then \<^verbatim>\<open>startPolling()\<close> on line 11.
\<close>

definition declared :: "'v worker" where
  "declared = \<lparr>isRunning = True, pollTimer = None, consecutiveErrors = 0,
               pending = [], nextTimerId = 1, inflight = [], trace = []\<rparr>"

definition module_load :: "nat \<Rightarrow> 'v worker" where
  "module_load now = startPolling now declared"

section \<open>The orchestrator: main.js\<close>

text \<open>
  \<^verbatim>\<open>robotData.value\<close>, the snapshot. A property that has not been set is \<open>None\<close>.
\<close>

record 'v robot_data =
  pingStatus :: "(string \<rightharpoonup> 'v) option"
  robotStatus :: "(string \<rightharpoonup> 'v) option"
  cleaningDeviceStatus :: "(string \<rightharpoonup> 'v) option"
  motorData :: "(string \<rightharpoonup> 'v) option"

datatype callback = FetchAllData | FetchMotorDataOnly | FetchGeneralData | FallbackPoll

text \<open>
  The two closures that the variable \<^verbatim>\<open>cleanup\<close> of \<^verbatim>\<open>setupMotorDataWorker\<close> can hold: the one
  of its declaration, and the one \<^verbatim>\<open>setupFallbackPolling\<close> wraps around the previous value.
\<close>

datatype cleanup_fn = CleanupMain | CleanupWithMotorInterval cleanup_fn timer_id

text \<open>
  The four refs the setup functions receive (\<open>robotData\<close>, \<open>lastUpdate\<close>, \<open>error\<close>, \<open>loading\<close>),
  the ref they create (\<open>motorUpdateKey\<close>), the local variables of \<^verbatim>\<open>setupMotorDataWorker\<close>, and
  what the runtime holds: the repeating timers with callback and period, the next timer handle,
  and the requests issued so far. The variable \<open>cleanup\<close> is declared with \<^verbatim>\<open>let\<close> on line 365:
  until that line has run, the binding is uninitialised (\<open>None\<close>) and reading it throws a
  ReferenceError. The counter \<open>motorUpdateKey\<close> is an integer far below \<open>2^53\<close>, where \<^verbatim>\<open>++\<close> is exact.
\<close>

record 'v orch =
  robotData :: "'v robot_data"
  lastUpdate :: string
  error :: "string option"
  loading :: bool
  motorUpdateKey :: nat
  worker_ref :: "unit option"
  mainDataInterval :: "timer_id option"
  cleanup :: "cleanup_fn option"
  intervals :: "(timer_id \<times> callback \<times> nat) list"
  nextHandle :: timer_id
  requests :: "callback list"

definition first_truthy :: "'a option \<Rightarrow> 'a option \<Rightarrow> 'a option" where
  "first_truthy a b = (case a of Some x \<Rightarrow> Some x | None \<Rightarrow> b)"

text \<open>
  \<^verbatim>\<open>fetchGeneralData\<close> from the point where its fetch has settled; \<open>time\<close> is the text of
  \<^verbatim>\<open>new Date().toLocaleString()\<close>. The object literal is evaluated before it is assigned, so
  an exception while reading \<open>data\<close> leaves \<open>robotData\<close> as it was.
\<close>

definition general_merge :: "'v payload \<Rightarrow> 'v robot_data \<Rightarrow> 'v robot_data" where
  "general_merge d r =
     r\<lparr>pingStatus := Some (or_empty (first_truthy (ping_status d) (pingStatus r))),
       robotStatus := Some (or_empty (first_truthy (robot_status d) (robotStatus r))),
       cleaningDeviceStatus :=
         Some (or_empty (first_truthy (cleaning_device_status d) (cleaningDeviceStatus r)))\<rparr>"

definition failed_to_load :: "string \<Rightarrow> 'v orch \<Rightarrow> 'v orch" where
  "failed_to_load m s = s\<lparr>error := Some (''Failed to load data: '' @ m), loading := False\<rparr>"

fun fetchGeneralData_resume :: "string \<Rightarrow> 'v fetch_outcome \<Rightarrow> 'v orch \<Rightarrow> 'v orch" where
  "fetchGeneralData_resume time (FetchRejected m) s = failed_to_load m s"
| "fetchGeneralData_resume time (NotOk status) s =
     failed_to_load (''Server responded with status: '' @ digits status) s"
| "fetchGeneralData_resume time (JsonRejected m) s = failed_to_load m s"
| "fetchGeneralData_resume time ParsedNull s = failed_to_load null_property_message s"
| "fetchGeneralData_resume time (Parsed d) s =
     s\<lparr>robotData := general_merge d (robotData s), lastUpdate := time,
       error := None, loading := False\<rparr>"

text \<open>\<^verbatim>\<open>fetchAllData\<close> of \<^verbatim>\<open>setupMotorDataUpdateRate\<close>, from the point where its fetch has settled.\<close>

fun fetchAllData_resume :: "string \<Rightarrow> 'v fetch_outcome \<Rightarrow> 'v orch \<Rightarrow> 'v orch" where
  "fetchAllData_resume time (FetchRejected m) s = failed_to_load m s"
| "fetchAllData_resume time (NotOk status) s =
     failed_to_load (''Server responded with status: '' @ digits status) s"
| "fetchAllData_resume time (JsonRejected m) s = failed_to_load m s"
| "fetchAllData_resume time ParsedNull s = failed_to_load null_property_message s"
| "fetchAllData_resume time (Parsed d) s =
     s\<lparr>robotData := (robotData s)\<lparr>pingStatus := Some (or_empty (ping_status d)),
                                     robotStatus := Some (or_empty (robot_status d)),
                                     cleaningDeviceStatus := Some (or_empty (cleaning_device_status d)),
                                     motorData := Some (or_empty (motor_data d))\<rparr>,
       lastUpdate := time, error := None, loading := False\<rparr>"

text \<open>
  The body shared, statement for statement, by \<^verbatim>\<open>fetchMotorDataOnly\<close> and by the callback of
  the fallback interval, from the point where the fetch has settled: a response that is not ok
  returns, an exception is caught and logged, and data without \<^verbatim>\<open>motor_data\<close> changes nothing.
\<close>

definition motor_merge :: "(string \<rightharpoonup> 'v) \<Rightarrow> 'v orch \<Rightarrow> 'v orch" where
  "motor_merge m s =
     s\<lparr>robotData := (robotData s)\<lparr>motorData := Some m\<rparr>, motorUpdateKey := motorUpdateKey s + 1\<rparr>"

fun fetchMotorDataOnly_resume :: "'v fetch_outcome \<Rightarrow> 'v orch \<Rightarrow> 'v orch" where
  "fetchMotorDataOnly_resume (Parsed d) s =
     (case motor_data d of None \<Rightarrow> s | Some m \<Rightarrow> motor_merge m s)"
| "fetchMotorDataOnly_resume outcome s = s"

fun fallback_resume :: "'v fetch_outcome \<Rightarrow> 'v orch \<Rightarrow> 'v orch" where
  "fallback_resume (Parsed d) s =
     (case motor_data d of None \<Rightarrow> s | Some m \<Rightarrow> motor_merge m s)"
| "fallback_resume outcome s = s"

text \<open>The listener that \<^verbatim>\<open>initWorker\<close> puts on the worker's messages.\<close>

fun on_worker_message :: "'v out_msg \<Rightarrow> 'v orch \<Rightarrow> 'v orch" where
  "on_worker_message (MotorDataMsg md ps timestamp) s =
     (case md of
        None \<Rightarrow> s
      | Some m \<Rightarrow>
          (let s1 = s\<lparr>robotData := (robotData s)\<lparr>motorData := Some m\<rparr>\<rparr>;
               s2 = (case ps of
                       None \<Rightarrow> s1
                     | Some p \<Rightarrow>
                         s1\<lparr>robotData := (robotData s1)
                              \<lparr>pingStatus := Some (or_empty (pingStatus (robotData s1)) ++ p)\<rparr>\<rparr>)
           in s2\<lparr>motorUpdateKey := motorUpdateKey s2 + 1\<rparr>))"
| "on_worker_message (ErrorMsg m) s = s"
| "on_worker_message OtherMsg s = s"

subsection \<open>The start sequence of setupMotorDataWorker\<close>

definition setInterval :: "callback \<Rightarrow> nat \<Rightarrow> 'v orch \<Rightarrow> timer_id \<times> 'v orch" where
  "setInterval cb period s =
     (nextHandle s, s\<lparr>intervals := intervals s @ [(nextHandle s, cb, period)],
                      nextHandle := Suc (nextHandle s)\<rparr>)"

definition issue :: "callback \<Rightarrow> 'v orch \<Rightarrow> 'v orch" where
  "issue cb s = s\<lparr>requests := requests s @ [cb]\<rparr>"

definition cleanup_uninitialised :: js_error where
  "cleanup_uninitialised = JsReferenceError ''Cannot access cleanup before initialization''"

text \<open>
  \<^verbatim>\<open>setupFallbackPolling\<close>: it arms the interval, then reads the variable \<open>cleanup\<close> to wrap it.
\<close>

definition setupFallbackPolling :: "'v orch \<Rightarrow> (js_error + unit) \<times> 'v orch" where
  "setupFallbackPolling s =
     (let (motorInterval, s1) = setInterval FallbackPoll 1000 s
      in case cleanup s1 of
           None \<Rightarrow> (Inl cleanup_uninitialised, s1)
         | Some originalCleanup \<Rightarrow>
             (Inr (), s1\<lparr>cleanup := Some (CleanupWithMotorInterval originalCleanup motorInterval)\<rparr>))"

text \<open>
  \<^verbatim>\<open>initWorker\<close>; \<open>new_Worker\<close> is what \<^verbatim>\<open>new Worker(...)\<close> does in the environment: \<open>Some err\<close>
  when it throws. The fallback is called inside the \<^verbatim>\<open>catch\<close> block, so what it throws leaves
  \<^verbatim>\<open>initWorker\<close>.
\<close>

definition initWorker :: "js_error option \<Rightarrow> 'v orch \<Rightarrow> (js_error + unit) \<times> 'v orch" where
  "initWorker new_Worker s =
     (case new_Worker of
        None \<Rightarrow> (Inr (), s\<lparr>worker_ref := Some ()\<rparr>)
      | Some err \<Rightarrow> setupFallbackPolling s)"

definition entered :: "'v robot_data \<Rightarrow> string \<Rightarrow> string option \<Rightarrow> bool \<Rightarrow> 'v orch" where
  "entered rd lu er ld =
     \<lparr>robotData = rd, lastUpdate = lu, error = er, loading = ld, motorUpdateKey = 0,
      worker_ref = None, mainDataInterval = None, cleanup = None, intervals = [],
      nextHandle = 1, requests = []\<rparr>"

text \<open>
  \<^verbatim>\<open>setupMotorDataWorker\<close>, in the order of its statements: the first general fetch, the main
  interval, \<^verbatim>\<open>initWorker()\<close>, and only then the declaration of \<open>cleanup\<close>. It returns the handle
  (the value of \<open>cleanup\<close>; the key is in the state) or the exception that leaves it.
\<close>

definition setupMotorDataWorker ::
  "js_error option \<Rightarrow> 'v robot_data \<Rightarrow> string \<Rightarrow> string option \<Rightarrow> bool
     \<Rightarrow> (js_error + cleanup_fn) \<times> 'v orch" where
  "setupMotorDataWorker new_Worker rd lu er ld =
     (let s1 = issue FetchGeneralData (entered rd lu er ld);
          (h, s2) = setInterval FetchGeneralData 5000 s1;
          s3 = s2\<lparr>mainDataInterval := Some h\<rparr>
      in case initWorker new_Worker s3 of
           (Inl err, s4) \<Rightarrow> (Inl err, s4)
         | (Inr u, s4) \<Rightarrow> (Inr CleanupMain, s4\<lparr>cleanup := Some CleanupMain\<rparr>))"

text \<open>
  What the page's event loop delivers to the code of the two setup functions: the settling of
  a general, full, motor-only or fallback fetch, or a message from the worker.
\<close>

datatype 'v orch_event =
    GeneralSettled string "'v fetch_outcome"
  | AllSettled string "'v fetch_outcome"
  | MotorOnlySettled "'v fetch_outcome"
  | FallbackSettled "'v fetch_outcome"
  | WorkerMessage "'v out_msg"

fun orch_step :: "'v orch_event \<Rightarrow> 'v orch \<Rightarrow> 'v orch" where
  "orch_step (GeneralSettled time outcome) s = fetchGeneralData_resume time outcome s"
| "orch_step (AllSettled time outcome) s = fetchAllData_resume time outcome s"
| "orch_step (MotorOnlySettled outcome) s = fetchMotorDataOnly_resume outcome s"
| "orch_step (FallbackSettled outcome) s = fallback_resume outcome s"
| "orch_step (WorkerMessage msg) s = on_worker_message msg s"

fun orch_run :: "'v orch_event list \<Rightarrow> 'v orch \<Rightarrow> 'v orch" where
  "orch_run [] s = s"
| "orch_run (e # es) s = orch_run es (orch_step e s)"

section \<open>Formatting and classifying motor values\<close>

fun Math_abs :: "jsnum \<Rightarrow> jsnum" where
  "Math_abs (Finite q) = Finite \<bar>q\<bar>"
| "Math_abs NaN = NaN"
| "Math_abs PosInf = PosInf"
| "Math_abs NegInf = PosInf"

text \<open>The comparison \<^verbatim>\<open>a > b\<close> of two numbers; it is false when either is NaN.\<close>

fun js_gt :: "jsnum \<Rightarrow> jsnum \<Rightarrow> bool" where
  "js_gt NaN b = False"
| "js_gt a NaN = False"
| "js_gt (Finite p) (Finite q) = (p > q)"
| "js_gt (Finite p) PosInf = False"
| "js_gt (Finite p) NegInf = True"
| "js_gt PosInf PosInf = False"
| "js_gt PosInf b = True"
| "js_gt NegInf b = False"

text \<open>
  The conversion that a comparison and \<^verbatim>\<open>Math.abs\<close> apply to an operand that is not a number.
  How the runtime reads a string as a number is the parameter \<open>str\<close>.
\<close>

fun ToNumber :: "(string \<Rightarrow> jsnum) \<Rightarrow> jsval \<Rightarrow> jsnum" where
  "ToNumber str JUndefined = NaN"
| "ToNumber str JNull = Finite 0"
| "ToNumber str (JBoolean b) = Finite (if b then 1 else 0)"
| "ToNumber str (JNumber n) = n"
| "ToNumber str (JString s) = str s"

text \<open>The integer nearest to a non-negative \<open>x\<close>, the larger one of two equally near.\<close>

definition round_half_up :: "rat \<Rightarrow> nat" where
  "round_half_up x = nat \<lfloor>x + 1 / 2\<rfloor>"

definition pad_zeros :: "nat \<Rightarrow> string \<Rightarrow> string" where
  "pad_zeros k m = replicate (k - length m) CHR ''0'' @ m"

definition sign_prefix :: "rat \<Rightarrow> string" where
  "sign_prefix x = (if x < 0 then ''-'' else [])"

text \<open>
  \<^verbatim>\<open>Number.prototype.toFixed(f)\<close> as ECMAScript defines it, for \<open>f\<close> from 0 to 100. From
  \<open>10^21\<close> on it gives the number's ordinary string, which depends on the neighbouring doubles
  and is the parameter \<open>big\<close>.
\<close>

fun toFixed :: "(rat \<Rightarrow> string) \<Rightarrow> nat \<Rightarrow> jsnum \<Rightarrow> string" where
  "toFixed big f NaN = ''NaN''"
| "toFixed big f PosInf = ''Infinity''"
| "toFixed big f NegInf = ''-Infinity''"
| "toFixed big f (Finite x) =
     (let s = sign_prefix x;
          y = \<bar>x\<bar>
      in if y \<ge> 10 ^ 21 then s @ big y
         else
           (let n = round_half_up (y * 10 ^ f);
                m = (if n = 0 then ''0'' else digits n)
            in if f \<noteq> 0
               then (let m' = pad_zeros (f + 1) m; k = length m'
                     in s @ take (k - f) m' @ ''.'' @ drop (k - f) m')
               else s @ m))"

text \<open>The integer \<open>e\<close> with \<open>10^e \<le> y < 10^(e+1)\<close>, for a positive \<open>y\<close>.\<close>

definition exponent10 :: "rat \<Rightarrow> int" where
  "exponent10 y =
     (if 1 \<le> y then int (length (digits (nat \<lfloor>y\<rfloor>))) - 1
      else - int (length (digits (nat (\<lceil>1 / y\<rceil> - 1)))))"

definition scale10 :: "rat \<Rightarrow> int \<Rightarrow> rat" where
  "scale10 y k = (if 0 \<le> k then y / 10 ^ nat k else y * 10 ^ nat (- k))"

text \<open>
  \<^verbatim>\<open>Number.prototype.toExponential(f)\<close> as ECMAScript defines it, for \<open>f\<close> from 0 to 100: the
  \<open>f + 1\<close> digits \<open>n\<close> and the exponent \<open>e\<close> with \<open>n * 10^(e - f)\<close> nearest to the value, the
  larger one of two equally near.
\<close>

fun toExponential :: "nat \<Rightarrow> jsnum \<Rightarrow> string" where
  "toExponential f NaN = ''NaN''"
| "toExponential f PosInf = ''Infinity''"
| "toExponential f NegInf = ''-Infinity''"
| "toExponential f (Finite x) =
     (let s = sign_prefix x;
          y = \<bar>x\<bar>;
          (m, e) =
            (if y = 0 then (replicate (f + 1) CHR ''0'', 0)
             else
               (let e0 = exponent10 y;
                    n0 = round_half_up (scale10 y (e0 - int f))
                in if n0 = 10 ^ (f + 1) then (digits (10 ^ f), e0 + 1) else (digits n0, e0)));
          m' = (if f \<noteq> 0 then take 1 m @ ''.'' @ drop 1 m else m);
          c = (if 0 \<le> e then ''+'' else ''-'');
          d = digits (nat \<bar>e\<bar>)
      in s @ m' @ ''e'' @ c @ d)"

text \<open>\<^verbatim>\<open>MotorDataService.formatMotorValue\<close>.\<close>

definition Service_formatMotorValue :: "(rat \<Rightarrow> string) \<Rightarrow> jsval \<Rightarrow> string" where
  "Service_formatMotorValue big value =
     (if value = JUndefined \<or> value = JNull then ''N/A''
      else case value of
             JNumber n \<Rightarrow>
               if js_gt (Math_abs n) (Finite 1000) then toExponential 2 n else toFixed big 3 n
           | _ \<Rightarrow> ''Invalid'')"

text \<open>The method \<^verbatim>\<open>formatMotorValue\<close> of \<^verbatim>\<open>MotorDataComponent\<close>.\<close>

definition Component_formatMotorValue :: "(rat \<Rightarrow> string) \<Rightarrow> jsval \<Rightarrow> string" where
  "Component_formatMotorValue big value =
     (if value = JUndefined \<or> value = JNull then ''N/A''
      else case value of
             JNumber n \<Rightarrow>
               if js_gt (Math_abs n) (Finite 1000) then toExponential 2 n else toFixed big 3 n
           | _ \<Rightarrow> ''Invalid'')"

text \<open>The method \<^verbatim>\<open>formatMotorValue\<close> of \<^verbatim>\<open>MotorDetailComponent\<close>: two decimal places, always.\<close>

definition Detail_formatMotorValue :: "(rat \<Rightarrow> string) \<Rightarrow> jsval \<Rightarrow> string" where
  "Detail_formatMotorValue big value =
     (if value = JUndefined \<or> value = JNull then ''N/A''
      else case value of
             JNumber n \<Rightarrow> toFixed big 2 n
           | _ \<Rightarrow> ''Invalid'')"

text \<open>\<^verbatim>\<open>MotorDataService.isMotorValueAbnormal\<close>.\<close>

definition Service_isMotorValueAbnormal :: "(string \<Rightarrow> jsnum) \<Rightarrow> jsval \<Rightarrow> string \<Rightarrow> bool" where
  "Service_isMotorValueAbnormal str value type =
     (if value = JUndefined \<or> value = JNull then False
      else if type = ''current'' then js_gt (ToNumber str value) (Finite 5)
      else if type = ''velocity'' then js_gt (Math_abs (ToNumber str value)) (Finite 1000)
      else if type = ''position'' then js_gt (Math_abs (ToNumber str value)) (Finite 100000)
      else False)"

text \<open>The method \<^verbatim>\<open>isMotorValueAbnormal\<close> of \<^verbatim>\<open>MotorDataComponent\<close>.\<close>

definition Component_isMotorValueAbnormal :: "(string \<Rightarrow> jsnum) \<Rightarrow> jsval \<Rightarrow> string \<Rightarrow> bool" where
  "Component_isMotorValueAbnormal str value type =
     (if value = JUndefined \<or> value = JNull then False
      else if type = ''current'' then js_gt (ToNumber str value) (Finite 5)
      else if type = ''velocity'' then js_gt (Math_abs (ToNumber str value)) (Finite 1000)
      else if type = ''position'' then js_gt (Math_abs (ToNumber str value)) (Finite 100000)
      else False)"

text \<open>
  The method \<^verbatim>\<open>isMotorValueAbnormal\<close> of \<^verbatim>\<open>MotorDetailComponent\<close>: its \<^verbatim>\<open>switch\<close> has the cases
  \<^verbatim>\<open>'current'\<close> and \<^verbatim>\<open>'velocity'\<close> only.
\<close>

definition Detail_isMotorValueAbnormal :: "(string \<Rightarrow> jsnum) \<Rightarrow> jsval \<Rightarrow> string \<Rightarrow> bool" where
  "Detail_isMotorValueAbnormal str value type =
     (if value = JUndefined \<or> value = JNull then False
      else if type = ''current'' then js_gt (ToNumber str value) (Finite 5)
      else if type = ''velocity'' then js_gt (Math_abs (ToNumber str value)) (Finite 1000)
      else False)"

section \<open>Observations used in the statements\<close>

definition is_start :: "'v event \<Rightarrow> bool" where
  "is_start e = (case e of Message now msg \<Rightarrow> command msg = JString ''start'' | _ \<Rightarrow> False)"

fun is_SetTimeout :: "'v effect \<Rightarrow> bool" where
  "is_SetTimeout (SetTimeout t d) = True"
| "is_SetTimeout e = False"

fun is_FetchIssued :: "'v effect \<Rightarrow> bool" where
  "is_FetchIssued (FetchIssued t) = True"
| "is_FetchIssued e = False"

text \<open>How many times the worker has called \<^verbatim>\<open>setTimeout\<close>, and \<^verbatim>\<open>fetch\<close>, so far.\<close>

definition timeouts_armed :: "'v worker \<Rightarrow> nat" where
  "timeouts_armed w = length (filter is_SetTimeout (trace w))"

definition fetches_issued :: "'v worker \<Rightarrow> nat" where
  "fetches_issued w = length (filter is_FetchIssued (trace w))"

text \<open>
  The failures of a cycle, by what happened to its request: the fetch was rejected (a network
  error), the response had a non-success status, its body could not be decoded or was null, or
  the decoded body has no \<^verbatim>\<open>motor_data\<close>. A cycle succeeds when the body carries \<^verbatim>\<open>motor_data\<close>.
\<close>

fun cycle_failed :: "'v fetch_outcome \<Rightarrow> bool" where
  "cycle_failed (FetchRejected m) = True"
| "cycle_failed (NotOk status) = True"
| "cycle_failed (JsonRejected m) = True"
| "cycle_failed ParsedNull = True"
| "cycle_failed (Parsed d) = (motor_data d = None)"

text \<open>
  A number exceeds a ceiling, and exceeds it in magnitude. NaN exceeds nothing; an infinity
  exceeds every ceiling in magnitude, and the positive one as it is.
\<close>

fun exceeds :: "jsnum \<Rightarrow> rat \<Rightarrow> bool" where
  "exceeds (Finite q) c = (c < q)"
| "exceeds NaN c = False"
| "exceeds PosInf c = True"
| "exceeds NegInf c = False"

fun magnitude_exceeds :: "jsnum \<Rightarrow> rat \<Rightarrow> bool" where
  "magnitude_exceeds (Finite q) c = (c < \<bar>q\<bar>)"
| "magnitude_exceeds NaN c = False"
| "magnitude_exceeds PosInf c = True"
| "magnitude_exceeds NegInf c = True"

text \<open>The events at which the page merges a motor update.\<close>

fun carries_motor_data :: "'v fetch_outcome \<Rightarrow> bool" where
  "carries_motor_data (Parsed d) = (motor_data d \<noteq> None)"
| "carries_motor_data outcome = False"

fun motor_merged :: "'v orch_event \<Rightarrow> bool" where
  "motor_merged (MotorOnlySettled outcome) = carries_motor_data outcome"
| "motor_merged (FallbackSettled outcome) = carries_motor_data outcome"
| "motor_merged (WorkerMessage (MotorDataMsg md ps timestamp)) = (md \<noteq> None)"
| "motor_merged e = False"

text \<open>The shapes of a rendered number.\<close>

definition is_digit :: "char \<Rightarrow> bool" where
  "is_digit c = (48 \<le> (of_char c :: nat) \<and> (of_char c :: nat) \<le> 57)"

definition unsigned :: "string \<Rightarrow> string" where
  "unsigned s = (case s of [] \<Rightarrow> [] | c # cs \<Rightarrow> if c = CHR ''-'' then cs else s)"

text \<open>Digits, a point, and exactly \<open>f\<close> digits, after an optional minus sign.\<close>

definition fixed_point_form :: "nat \<Rightarrow> string \<Rightarrow> bool" where
  "fixed_point_form f s =
     (let t = unsigned s; ip = takeWhile is_digit t; rest = dropWhile is_digit t
      in ip \<noteq> [] \<and>
         (case rest of
            [] \<Rightarrow> False
          | c # fp \<Rightarrow> c = CHR ''.'' \<and> length fp = f \<and> list_all is_digit fp))"

text \<open>
  One digit, a point, exactly \<open>f\<close> digits, the letter e, a sign and the digits of the exponent,
  after an optional minus sign.
\<close>

definition exponential_form :: "nat \<Rightarrow> string \<Rightarrow> bool" where
  "exponential_form f s =
     (case unsigned s of
        d # p # r \<Rightarrow>
          is_digit d \<and> p = CHR ''.'' \<and> list_all is_digit (take f r) \<and> length (take f r) = f \<and>
          (case drop f r of
             e # sg # ex \<Rightarrow>
               e = CHR ''e'' \<and> (sg = CHR ''+'' \<or> sg = CHR ''-'') \<and> ex \<noteq> [] \<and> list_all is_digit ex
           | _ \<Rightarrow> False)
      | _ \<Rightarrow> False)"

section \<open>The background poller: properties\<close>

lemma after_try_errors:
  "consecutiveErrors (after_try ts outcome w) =
     (if cycle_failed outcome then consecutiveErrors w + 1 else 0)"
  by (cases outcome) (simp_all add: after_try_def emit_def split: option.splits)

lemma after_try_frame:
  "isRunning (after_try ts outcome w) = isRunning w"
  "pending (after_try ts outcome w) = pending w"
  "nextTimerId (after_try ts outcome w) = nextTimerId w"
  "pollTimer (after_try ts outcome w) = pollTimer w"
  "inflight (after_try ts outcome w) = inflight w"
  by (simp_all add: after_try_def emit_def split: sum.splits)

lemma after_try_trace:
  "trace (after_try ts outcome w) =
     trace w @ [PostMessage (case try_block outcome of
                   Inr d \<Rightarrow> MotorDataMsg (Some (or_empty (motor_data d)))
                                          (Some (or_empty (ping_status d))) ts
                 | Inl m \<Rightarrow> ErrorMsg m)]"
  by (simp add: after_try_def emit_def split: sum.splits)

lemma after_try_counts:
  "timeouts_armed (after_try ts outcome w) = timeouts_armed w"
  "fetches_issued (after_try ts outcome w) = fetches_issued w"
  by (simp_all add: timeouts_armed_def fetches_issued_def after_try_trace)

lemma counts_upd [simp]:
  "timeouts_armed (w\<lparr>isRunning := b\<rparr>) = timeouts_armed w"
  "timeouts_armed (w\<lparr>inflight := xs\<rparr>) = timeouts_armed w"
  "timeouts_armed (w\<lparr>pending := ps\<rparr>) = timeouts_armed w"
  "fetches_issued (w\<lparr>isRunning := b\<rparr>) = fetches_issued w"
  "fetches_issued (w\<lparr>inflight := xs\<rparr>) = fetches_issued w"
  "fetches_issued (w\<lparr>pending := ps\<rparr>) = fetches_issued w"
  by (simp_all add: timeouts_armed_def fetches_issued_def)

lemma clear_pollTimer_frame:
  "isRunning (clear_pollTimer w) = isRunning w"
  "inflight (clear_pollTimer w) = inflight w"
  "pollTimer (clear_pollTimer w) = pollTimer w"
  "consecutiveErrors (clear_pollTimer w) = consecutiveErrors w"
  "timeouts_armed (clear_pollTimer w) = timeouts_armed w"
  "fetches_issued (clear_pollTimer w) = fetches_issued w"
  by (simp_all add: clear_pollTimer_def clearTimeout_def emit_def timeouts_armed_def
        fetches_issued_def split: option.splits)

lemma clear_pollTimer_pending:
  "pollTimer w = Some t \<Longrightarrow> t \<notin> fst ` set (pending (clear_pollTimer w))"
  by (auto simp add: clear_pollTimer_def clearTimeout_def emit_def)

lemma issue_frame:
  "isRunning (pollMotorData_issue now w) = isRunning w"
  "pollTimer (pollMotorData_issue now w) = pollTimer w"
  "pending (pollMotorData_issue now w) = pending w"
  "timeouts_armed (pollMotorData_issue now w) = timeouts_armed w"
  "fetches_issued (pollMotorData_issue now w) = fetches_issued w + 1"
  by (simp_all add: pollMotorData_issue_def emit_def timeouts_armed_def fetches_issued_def)

lemma resume_stopped:
  "\<not> isRunning w \<Longrightarrow> pollMotorData_resume ts outcome w = after_try ts outcome w"
  by (simp add: pollMotorData_resume_def Let_def after_try_frame)

lemma stopped_on_message:
  assumes "\<not> isRunning w" and "command msg \<noteq> JString ''start''"
  shows "\<not> isRunning (snd (on_message now msg w))"
    and "timeouts_armed (snd (on_message now msg w)) = timeouts_armed w"
  using assms
  by (simp_all add: on_message_def clear_pollTimer_frame issue_frame)

lemma stopped_step:
  assumes "\<not> isRunning w" and "\<not> is_start e"
  shows "\<not> isRunning (step e w) \<and> timeouts_armed (step e w) = timeouts_armed w"
proof (cases e)
  case (Message now msg)
  with assms have ns: "command msg \<noteq> JString ''start''"
    by (simp add: is_start_def)
  obtain r w' where r: "on_message now msg w = (r, w')"
    by (cases "on_message now msg w")
  with stopped_on_message [OF assms(1) ns, of now]
  have "\<not> isRunning w'" "timeouts_armed w' = timeouts_armed w"
    by simp_all
  with Message r show ?thesis
    by (cases r) (simp_all add: emit_def timeouts_armed_def)
next
  case (TimerFired now t)
  with assms(1) show ?thesis
    by (simp add: issue_frame)
next
  case (FetchSettled k outcome)
  with assms(1) show ?thesis
    by (simp add: resume_stopped after_try_frame after_try_counts)
qed

lemma stopped_run:
  "\<not> isRunning w \<Longrightarrow> list_all (\<lambda>e. \<not> is_start e) es \<Longrightarrow>
     \<not> isRunning (run es w) \<and> timeouts_armed (run es w) = timeouts_armed w"
proof (induction es arbitrary: w)
  case Nil
  then show ?case by simp
next
  case (Cons e es)
  from Cons.prems have s: "\<not> isRunning (step e w)" "timeouts_armed (step e w) = timeouts_armed w"
    using stopped_step [of w e] by simp_all
  from Cons.IH [OF s(1)] Cons.prems(2) s(2) show ?case by simp
qed

lemma stop_result:
  assumes "command msg = JString ''stop''"
  shows "on_message now msg w = (None, clear_pollTimer (w\<lparr>isRunning := False\<rparr>))"
  using assms by (simp add: on_message_def)

text \<open>
  Claim C10. Loading the worker's module starts the polling loop at once: before any command
  has been delivered the poller is running and has issued its first motor fetch, which is in
  flight.
\<close>

theorem C10_created_worker_polls:
  "isRunning (module_load now) \<and> trace (module_load now) = [FetchIssued now]
     \<and> inflight (module_load now) = [now]"
  by (simp add: module_load_def startPolling_def declared_def pollMotorData_issue_def emit_def)

text \<open>
  Claim C4. When a cycle's fetch has settled, the error counter is one more than before if the
  cycle failed (the fetch was rejected, the status was not a success, the body could not be
  decoded or was null, or it had no \<^verbatim>\<open>motor_data\<close>) and 0 if it succeeded (the body carries
  \<^verbatim>\<open>motor_data\<close>); and the next cycle, which is scheduled when the poller is still running, is
  armed after twice \<open>POLLING_INTERVAL\<close> if the counter now exceeds 3 and after
  \<open>POLLING_INTERVAL\<close> otherwise.
\<close>

theorem C4_backoff:
  "consecutiveErrors (pollMotorData_resume ts (FetchRejected reason) w) = consecutiveErrors w + 1
   \<and> consecutiveErrors (pollMotorData_resume ts (NotOk status) w) = consecutiveErrors w + 1
   \<and> consecutiveErrors (pollMotorData_resume ts (JsonRejected reason) w) = consecutiveErrors w + 1
   \<and> consecutiveErrors (pollMotorData_resume ts ParsedNull w) = consecutiveErrors w + 1
   \<and> (motor_data d = None \<longrightarrow>
        consecutiveErrors (pollMotorData_resume ts (Parsed d) w) = consecutiveErrors w + 1)
   \<and> (motor_data d \<noteq> None \<longrightarrow>
        consecutiveErrors (pollMotorData_resume ts (Parsed d) w) = 0)
   \<and> consecutiveErrors (pollMotorData_resume ts outcome w) =
       (if cycle_failed outcome then consecutiveErrors w + 1 else 0)
   \<and> (isRunning w \<longrightarrow>
        pollTimer (pollMotorData_resume ts outcome w) = Some (nextTimerId w)
      \<and> pending (pollMotorData_resume ts outcome w) =
          pending w @ [(nextTimerId w,
             if consecutiveErrors (pollMotorData_resume ts outcome w) > 3
             then 2 * POLLING_INTERVAL else POLLING_INTERVAL)])"
proof -
  have c: "\<And>o'. consecutiveErrors (pollMotorData_resume ts o' w) =
              (if cycle_failed o' then consecutiveErrors w + 1 else 0)"
    by (simp add: pollMotorData_resume_def Let_def after_try_frame after_try_errors
          setTimeout_poll_def emit_def)
  have s: "isRunning w \<longrightarrow>
        pollTimer (pollMotorData_resume ts outcome w) = Some (nextTimerId w)
      \<and> pending (pollMotorData_resume ts outcome w) =
          pending w @ [(nextTimerId w,
             if consecutiveErrors (pollMotorData_resume ts outcome w) > 3
             then 2 * POLLING_INTERVAL else POLLING_INTERVAL)]"
    by (simp add: pollMotorData_resume_def Let_def after_try_frame after_try_errors
          setTimeout_poll_def emit_def nextInterval_def MAX_CONSECUTIVE_ERRORS_def)
  from s show ?thesis
    by (simp only: c) simp
qed

theorem C4_backoff_witness:
  "isRunning (declared\<lparr>consecutiveErrors := 3\<rparr> :: bool worker)
   \<and> consecutiveErrors (pollMotorData_resume 0 (NotOk 503)
        (declared\<lparr>consecutiveErrors := 3\<rparr> :: bool worker)) = 4
   \<and> pending (pollMotorData_resume 0 (NotOk 503)
        (declared\<lparr>consecutiveErrors := 3\<rparr> :: bool worker)) = [(1, 1000)]
   \<and> motor_data \<lparr>ping_status = None, robot_status = None, cleaning_device_status = None,
                   motor_data = Some [''base1'' \<mapsto> True]\<rparr> \<noteq> None
   \<and> consecutiveErrors (pollMotorData_resume 0
        (Parsed \<lparr>ping_status = None, robot_status = None, cleaning_device_status = None,
                 motor_data = Some [''base1'' \<mapsto> True]\<rparr>)
        (declared\<lparr>consecutiveErrors := 3\<rparr> :: bool worker)) = 0
   \<and> pending (pollMotorData_resume 0
        (Parsed \<lparr>ping_status = None, robot_status = None, cleaning_device_status = None,
                 motor_data = Some [''base1'' \<mapsto> True]\<rparr>)
        (declared\<lparr>consecutiveErrors := 3\<rparr> :: bool worker)) = [(1, 500)]"
  using C4_backoff [of 0 "[]" "declared\<lparr>consecutiveErrors := 3\<rparr> :: bool worker" 503
          "\<lparr>ping_status = None, robot_status = None, cleaning_device_status = None,
            motor_data = Some [''base1'' \<mapsto> True]\<rparr>" "NotOk 503"]
    C4_backoff [of 0 "[]" "declared\<lparr>consecutiveErrors := 3\<rparr> :: bool worker" 503
          "\<lparr>ping_status = None, robot_status = None, cleaning_device_status = None,
            motor_data = Some [''base1'' \<mapsto> True]\<rparr>"
          "Parsed \<lparr>ping_status = None, robot_status = None, cleaning_device_status = None,
                   motor_data = Some [''base1'' \<mapsto> True]\<rparr>"]
  by (simp add: declared_def POLLING_INTERVAL_def)

text \<open>
  Claim C9. Once a \<^verbatim>\<open>stop\<close> command has been processed the poller is not running, the timer
  held in \<open>pollTimer\<close> is no longer armed and the fetches in flight are untouched. From then on,
  whatever is delivered short of a \<^verbatim>\<open>start\<close> command, \<^verbatim>\<open>setTimeout\<close> is never called again;
  and a fetch in flight, when it settles, still posts exactly one message: the \<^verbatim>\<open>motorData\<close>
  message with the body's motor data, its ping status and the fetch's timestamp if the body
  carries \<^verbatim>\<open>motor_data\<close>, and an \<^verbatim>\<open>error\<close> message with the error's text if the fetch was
  rejected, the status was not a success, the body could not be decoded or was null, or it had
  no \<^verbatim>\<open>motor_data\<close>.
\<close>

theorem C9_stop_ends_scheduling:
  assumes "command msg = JString ''stop''"
    and "list_all (\<lambda>e. \<not> is_start e) es"
    and "k < length (inflight (run es (snd (on_message now msg w))))"
  shows "\<not> isRunning (snd (on_message now msg w))
       \<and> (\<forall>t. pollTimer (snd (on_message now msg w)) = Some t
              \<longrightarrow> t \<notin> fst ` set (pending (snd (on_message now msg w))))
       \<and> inflight (snd (on_message now msg w)) = inflight w
       \<and> timeouts_armed (snd (on_message now msg w)) = timeouts_armed w
       \<and> timeouts_armed (run es (snd (on_message now msg w))) = timeouts_armed w
       \<and> timeouts_armed (step (FetchSettled k outcome) (run es (snd (on_message now msg w))))
           = timeouts_armed w
       \<and> (motor_data d = Some m \<longrightarrow>
         trace (step (FetchSettled k (Parsed d)) (run es (snd (on_message now msg w))))
           = trace (run es (snd (on_message now msg w))) @ [PostMessage (MotorDataMsg (Some m) (Some (or_empty (ping_status d)))
                 (inflight (run es (snd (on_message now msg w))) ! k))])
       \<and> trace (step (FetchSettled k (FetchRejected reason)) (run es (snd (on_message now msg w))))
           = trace (run es (snd (on_message now msg w))) @ [PostMessage (ErrorMsg reason)]
       \<and> trace (step (FetchSettled k (NotOk status)) (run es (snd (on_message now msg w))))
           = trace (run es (snd (on_message now msg w))) @ [PostMessage (ErrorMsg (''Server responded with status: '' @ digits status))]
       \<and> trace (step (FetchSettled k (JsonRejected reason)) (run es (snd (on_message now msg w))))
           = trace (run es (snd (on_message now msg w))) @ [PostMessage (ErrorMsg reason)]
       \<and> (\<exists>reason'. trace (step (FetchSettled k ParsedNull) (run es (snd (on_message now msg w))))
           = trace (run es (snd (on_message now msg w))) @ [PostMessage (ErrorMsg reason')])
       \<and> (motor_data d = None \<longrightarrow>
         trace (step (FetchSettled k (Parsed d)) (run es (snd (on_message now msg w))))
           = trace (run es (snd (on_message now msg w))) @ [PostMessage (ErrorMsg ''Motor data missing in response'')])"
proof -
  let ?w1 = "snd (on_message now msg w)"
  let ?w2 = "run es ?w1"
  have w1: "?w1 = clear_pollTimer (w\<lparr>isRunning := False\<rparr>)"
    by (simp add: stop_result [OF assms(1)])
  have stopped: "\<not> isRunning ?w1"
    by (simp add: w1 clear_pollTimer_frame)
  have cleared: "\<forall>t. pollTimer ?w1 = Some t \<longrightarrow> t \<notin> fst ` set (pending ?w1)"
    unfolding w1 using clear_pollTimer_pending [of "w\<lparr>isRunning := False\<rparr>"]
    by (simp add: clear_pollTimer_frame)
  have fl: "inflight ?w1 = inflight w"
    by (simp add: w1 clear_pollTimer_frame)
  have ta: "timeouts_armed ?w1 = timeouts_armed w"
    by (simp add: w1 clear_pollTimer_frame)
  from stopped_run [OF stopped assms(2)]
  have w2: "\<not> isRunning ?w2" "timeouts_armed ?w2 = timeouts_armed w"
    by (simp_all add: ta)
  have "\<not> is_start (FetchSettled k outcome)"
    by (simp add: is_start_def)
  from stopped_step [OF w2(1) this]
  have ts: "timeouts_armed (step (FetchSettled k outcome) ?w2) = timeouts_armed w"
    by (simp add: w2(2))
  let ?u = "?w2\<lparr>inflight := take k (inflight ?w2) @ drop (Suc k) (inflight ?w2)\<rparr>"
  have "\<not> isRunning ?u"
    using w2(1) by simp
  then have st: "\<And>o'. trace (step (FetchSettled k o') ?w2) =
      trace ?w2 @ [PostMessage (case try_block o' of
                   Inr d \<Rightarrow> MotorDataMsg (Some (or_empty (motor_data d)))
                                          (Some (or_empty (ping_status d))) (inflight ?w2 ! k)
                 | Inl m \<Rightarrow> ErrorMsg m)]"
    using assms(3) by (simp add: resume_stopped after_try_trace)
  have tr: "(motor_data d = Some m \<longrightarrow>
         trace (step (FetchSettled k (Parsed d)) (run es (snd (on_message now msg w))))
           = trace (run es (snd (on_message now msg w))) @ [PostMessage (MotorDataMsg (Some m) (Some (or_empty (ping_status d)))
                 (inflight (run es (snd (on_message now msg w))) ! k))])
       \<and> trace (step (FetchSettled k (FetchRejected reason)) (run es (snd (on_message now msg w))))
           = trace (run es (snd (on_message now msg w))) @ [PostMessage (ErrorMsg reason)]
       \<and> trace (step (FetchSettled k (NotOk status)) (run es (snd (on_message now msg w))))
           = trace (run es (snd (on_message now msg w))) @ [PostMessage (ErrorMsg (''Server responded with status: '' @ digits status))]
       \<and> trace (step (FetchSettled k (JsonRejected reason)) (run es (snd (on_message now msg w))))
           = trace (run es (snd (on_message now msg w))) @ [PostMessage (ErrorMsg reason)]
       \<and> (\<exists>reason'. trace (step (FetchSettled k ParsedNull) (run es (snd (on_message now msg w))))
           = trace (run es (snd (on_message now msg w))) @ [PostMessage (ErrorMsg reason')])
       \<and> (motor_data d = None \<longrightarrow>
         trace (step (FetchSettled k (Parsed d)) (run es (snd (on_message now msg w))))
           = trace (run es (snd (on_message now msg w))) @ [PostMessage (ErrorMsg ''Motor data missing in response'')])"
    unfolding st by (simp add: or_empty_def)
  from stopped cleared fl ta w2(2) ts tr show ?thesis
    by blast
qed

lemma stop_after_load:
  "snd (on_message 5 \<lparr>command = JString ''stop'', interval = JUndefined\<rparr>
          (module_load 0 :: unit worker))
    = \<lparr>isRunning = False, pollTimer = None, consecutiveErrors = 0, pending = [],
        nextTimerId = 1, inflight = [0], trace = [FetchIssued 0]\<rparr>"
  by (simp add: on_message_def module_load_def startPolling_def declared_def
        pollMotorData_issue_def emit_def clear_pollTimer_def)

lemma two_loops_one_timer:
  "(run [Message 1 \<lparr>command = JString ''start'', interval = JUndefined\<rparr>,
              FetchSettled 0 (FetchRejected ''Failed to fetch'')] (module_load 0 :: bool worker))
    = \<lparr>isRunning = True, pollTimer = Some 1, consecutiveErrors = 1, pending = [(1, 500)],
        nextTimerId = 2, inflight = [1],
        trace = [FetchIssued 0, FetchIssued 1, PostMessage (ErrorMsg ''Failed to fetch''),
                 SetTimeout 1 500]\<rparr>"
  by (simp add: on_message_def module_load_def startPolling_def declared_def
        pollMotorData_issue_def emit_def pollMotorData_resume_def after_try_def
        setTimeout_poll_def nextInterval_def POLLING_INTERVAL_def MAX_CONSECUTIVE_ERRORS_def
        Let_def)

theorem C9_stop_ends_scheduling_witness:
  "command \<lparr>command = JString ''stop'', interval = JUndefined\<rparr> = JString ''stop''
   \<and> list_all (\<lambda>e. \<not> is_start e) ([] :: bool event list)
   \<and> pending (run [Message 1 \<lparr>command = JString ''start'', interval = JUndefined\<rparr>,
              FetchSettled 0 (FetchRejected ''Failed to fetch'')] (module_load 0 :: bool worker)) = [(1, 500)]
   \<and> 0 < length (inflight (run [] (snd (on_message 5 \<lparr>command = JString ''stop'', interval = JUndefined\<rparr> (run [Message 1 \<lparr>command = JString ''start'', interval = JUndefined\<rparr>,
              FetchSettled 0 (FetchRejected ''Failed to fetch'')] (module_load 0 :: bool worker))))))
   \<and> pending (snd (on_message 5 \<lparr>command = JString ''stop'', interval = JUndefined\<rparr> (run [Message 1 \<lparr>command = JString ''start'', interval = JUndefined\<rparr>,
              FetchSettled 0 (FetchRejected ''Failed to fetch'')] (module_load 0 :: bool worker)))) = []
   \<and> motor_data \<lparr>ping_status = None, robot_status = None, cleaning_device_status = None,
              motor_data = Some [''base1'' \<mapsto> True]\<rparr> = Some [''base1'' \<mapsto> True]
   \<and> trace (step (FetchSettled 0 (Parsed \<lparr>ping_status = None, robot_status = None, cleaning_device_status = None,
              motor_data = Some [''base1'' \<mapsto> True]\<rparr>)) (run [] (snd (on_message 5 \<lparr>command = JString ''stop'', interval = JUndefined\<rparr> (run [Message 1 \<lparr>command = JString ''start'', interval = JUndefined\<rparr>,
              FetchSettled 0 (FetchRejected ''Failed to fetch'')] (module_load 0 :: bool worker))))))
       = [FetchIssued 0, FetchIssued 1, PostMessage (ErrorMsg ''Failed to fetch''),
          SetTimeout 1 500, ClearTimeout 1,
          PostMessage (MotorDataMsg (Some [''base1'' \<mapsto> True]) (Some Map.empty) 1)]
   \<and> trace (step (FetchSettled 0 (FetchRejected ''Failed to fetch''))
         (run [] (snd (on_message 5 \<lparr>command = JString ''stop'', interval = JUndefined\<rparr> (run [Message 1 \<lparr>command = JString ''start'', interval = JUndefined\<rparr>,
              FetchSettled 0 (FetchRejected ''Failed to fetch'')] (module_load 0 :: bool worker))))))
       = [FetchIssued 0, FetchIssued 1, PostMessage (ErrorMsg ''Failed to fetch''),
          SetTimeout 1 500, ClearTimeout 1, PostMessage (ErrorMsg ''Failed to fetch'')]"
proof -
  have stop: "snd (on_message 5 \<lparr>command = JString ''stop'', interval = JUndefined\<rparr>
      (\<lparr>isRunning = True, pollTimer = Some 1, consecutiveErrors = 1, pending = [(1, 500)],
        nextTimerId = 2, inflight = [1],
        trace = [FetchIssued 0, FetchIssued 1, PostMessage (ErrorMsg ''Failed to fetch''),
                 SetTimeout 1 500]\<rparr> :: bool worker))
    = \<lparr>isRunning = False, pollTimer = Some 1, consecutiveErrors = 1, pending = [],
        nextTimerId = 2, inflight = [1],
        trace = [FetchIssued 0, FetchIssued 1, PostMessage (ErrorMsg ''Failed to fetch''),
                 SetTimeout 1 500, ClearTimeout 1]\<rparr>"
    by (simp add: on_message_def clear_pollTimer_def clearTimeout_def emit_def)
  have hyps: "command \<lparr>command = JString ''stop'', interval = JUndefined\<rparr> = JString ''stop''"
    "list_all (\<lambda>e. \<not> is_start e) ([] :: bool event list)"
    "0 < length (inflight (run [] (snd (on_message 5 \<lparr>command = JString ''stop'', interval = JUndefined\<rparr> (run [Message 1 \<lparr>command = JString ''start'', interval = JUndefined\<rparr>,
              FetchSettled 0 (FetchRejected ''Failed to fetch'')] (module_load 0 :: bool worker))))))"
    unfolding two_loops_one_timer run.simps(1) stop by simp_all
  from C9_stop_ends_scheduling [OF hyps, where m = "[''base1'' \<mapsto> True]"
         and d = "\<lparr>ping_status = None, robot_status = None, cleaning_device_status = None,
                  motor_data = Some [''base1'' \<mapsto> True]\<rparr>"
         and reason = "''Failed to fetch''"] hyps
  show ?thesis
    unfolding two_loops_one_timer run.simps(1) stop by (simp add: or_empty_def)
qed

text \<open>
  Claim C2, at the command \<^verbatim>\<open>{command: 'setInterval', interval: 250}\<close>: the handler leaves
  with a TypeError, the state is as before, and the next delay is still computed from 500.
\<close>

theorem C2_setInterval_throws:
  "on_message now \<lparr>command = JString ''setInterval'', interval = JNumber (Finite 250)\<rparr> w
     = (Some (JsTypeError ''Assignment to constant variable.''), w)
   \<and> nextInterval (snd (on_message now
        \<lparr>command = JString ''setInterval'', interval = JNumber (Finite 250)\<rparr> w))
     = (if consecutiveErrors w > 3 then 1000 else 500)"
  by (simp add: on_message_def nextInterval_def POLLING_INTERVAL_def MAX_CONSECUTIVE_ERRORS_def)

text \<open>
  Claim C3 fails where it says that a \<^verbatim>\<open>poll\<close> command after \<^verbatim>\<open>stop\<close> issues no fetch: the
  worker loaded at time 0, stopped at time 5 and told to poll at time 7 issues a fetch at 7.
\<close>

theorem C3_poll_after_stop_counterexample:
  "trace (snd (on_message 7 \<lparr>command = JString ''poll'', interval = JUndefined\<rparr>
            (snd (on_message 5 \<lparr>command = JString ''stop'', interval = JUndefined\<rparr>
               (module_load 0 :: unit worker)))))
     = [FetchIssued 0, FetchIssued 7]"
  by (simp add: stop_after_load)
     (simp add: on_message_def pollMotorData_issue_def emit_def clear_pollTimer_def)

text \<open>
  Claim C3, amended. After a \<^verbatim>\<open>stop\<close> command, a second \<^verbatim>\<open>stop\<close> does not throw, issues no
  fetch and arms no timer; a \<^verbatim>\<open>poll\<close> command does not throw, issues exactly one fetch and
  arms no timer; and whatever is delivered short of a \<^verbatim>\<open>start\<close> command, the poller stays
  stopped and no timer is armed.
\<close>

theorem C3_after_stop:
  assumes "command stop = JString ''stop''"
    and "command again = JString ''stop''"
    and "command poll = JString ''poll''"
    and "list_all (\<lambda>e. \<not> is_start e) es"
  shows "fst (on_message t2 again (snd (on_message t1 stop w))) = None
       \<and> fetches_issued (snd (on_message t2 again (snd (on_message t1 stop w))))
           = fetches_issued (snd (on_message t1 stop w))
       \<and> timeouts_armed (snd (on_message t2 again (snd (on_message t1 stop w))))
           = timeouts_armed (snd (on_message t1 stop w))
       \<and> fst (on_message t3 poll (snd (on_message t1 stop w))) = None
       \<and> fetches_issued (snd (on_message t3 poll (snd (on_message t1 stop w))))
           = fetches_issued (snd (on_message t1 stop w)) + 1
       \<and> timeouts_armed (snd (on_message t3 poll (snd (on_message t1 stop w))))
           = timeouts_armed (snd (on_message t1 stop w))
       \<and> \<not> isRunning (run es (snd (on_message t1 stop w)))
       \<and> timeouts_armed (run es (snd (on_message t1 stop w)))
           = timeouts_armed (snd (on_message t1 stop w))"
proof -
  let ?w1 = "snd (on_message t1 stop w)"
  have w1: "?w1 = clear_pollTimer (w\<lparr>isRunning := False\<rparr>)"
    by (simp add: stop_result [OF assms(1)])
  have stopped: "\<not> isRunning ?w1"
    by (simp add: w1 clear_pollTimer_frame)
  have a: "on_message t2 again ?w1 = (None, clear_pollTimer (?w1\<lparr>isRunning := False\<rparr>))"
    by (rule stop_result [OF assms(2)])
  have p: "on_message t3 poll ?w1 = (None, pollMotorData_issue t3 (clear_pollTimer ?w1))"
    using assms(3) by (simp add: on_message_def)
  from stopped_run [OF stopped assms(4)] a p show ?thesis
    by (simp add: clear_pollTimer_frame issue_frame)
qed

theorem C3_after_stop_witness:
  "command \<lparr>command = JString ''stop'', interval = JUndefined\<rparr> = JString ''stop''
   \<and> command \<lparr>command = JString ''poll'', interval = JUndefined\<rparr> = JString ''poll''
   \<and> list_all (\<lambda>e. \<not> is_start e)
        [Message 7 \<lparr>command = JString ''poll'', interval = JUndefined\<rparr>,
         FetchSettled 0 (NotOk 503) :: unit event]
   \<and> timeouts_armed (run [Message 7 \<lparr>command = JString ''poll'', interval = JUndefined\<rparr>,
                            FetchSettled 0 (NotOk 503)]
        (snd (on_message 5 \<lparr>command = JString ''stop'', interval = JUndefined\<rparr>
               (module_load 0 :: unit worker)))) = 0"
  using C3_after_stop [of "\<lparr>command = JString ''stop'', interval = JUndefined\<rparr>"
          "\<lparr>command = JString ''stop'', interval = JUndefined\<rparr>"
          "\<lparr>command = JString ''poll'', interval = JUndefined\<rparr>"
          "[Message 7 \<lparr>command = JString ''poll'', interval = JUndefined\<rparr>,
            FetchSettled 0 (NotOk 503) :: unit event]" 6 5 "module_load 0 :: unit worker" 7]
  by (simp add: is_start_def stop_after_load) (simp add: timeouts_armed_def)

section \<open>The orchestrator: properties\<close>

text \<open>
  Claim C1, where \<^verbatim>\<open>new Worker(...)\<close> throws: the fallback interval is armed, and then reading
  \<open>cleanup\<close> before its declaration has run throws a ReferenceError inside the \<^verbatim>\<open>catch\<close> block,
  which leaves \<^verbatim>\<open>setupMotorDataWorker\<close>; no handle is returned.
\<close>

theorem C1_fallback_start_throws:
  "fst (setupMotorDataWorker (Some err) rd lu er ld) = Inl cleanup_uninitialised
   \<and> intervals (snd (setupMotorDataWorker (Some err) rd lu er ld))
       = [(1, FetchGeneralData, 5000), (2, FallbackPoll, 1000)]
   \<and> cleanup (snd (setupMotorDataWorker (Some err) rd lu er ld)) = None"
  by (simp add: setupMotorDataWorker_def initWorker_def setupFallbackPolling_def
        setInterval_def issue_def entered_def Let_def)

lemma motor_merge_frame:
  "robotData (motor_merge m s) = (robotData s)\<lparr>motorData := Some m\<rparr>"
  "motorUpdateKey (motor_merge m s) = motorUpdateKey s + 1"
  by (simp_all add: motor_merge_def)

lemma motor_only_key:
  "motorUpdateKey (fetchMotorDataOnly_resume outcome s) =
     motorUpdateKey s + (if carries_motor_data outcome then 1 else 0)"
  by (cases outcome) (simp_all add: motor_merge_frame split: option.splits)

lemma fallback_key:
  "motorUpdateKey (fallback_resume outcome s) =
     motorUpdateKey s + (if carries_motor_data outcome then 1 else 0)"
  by (cases outcome) (simp_all add: motor_merge_frame split: option.splits)

lemma worker_message_key:
  "motorUpdateKey (on_worker_message msg s) =
     motorUpdateKey s + (if motor_merged (WorkerMessage msg) then 1 else 0)"
proof (cases msg)
  case (MotorDataMsg md ps ts)
  then show ?thesis
    by (cases md; cases ps) (simp_all add: Let_def)
qed simp_all

lemma general_key:
  "motorUpdateKey (fetchGeneralData_resume time outcome s) = motorUpdateKey s"
  by (cases outcome) (simp_all add: failed_to_load_def)

lemma all_key:
  "motorUpdateKey (fetchAllData_resume time outcome s) = motorUpdateKey s"
  by (cases outcome) (simp_all add: failed_to_load_def)

lemma orch_step_key:
  "motorUpdateKey (orch_step e s) = motorUpdateKey s + (if motor_merged e then 1 else 0)"
  by (cases e) (simp_all add: motor_only_key fallback_key worker_message_key general_key all_key)

lemma orch_run_key:
  "motorUpdateKey (orch_run es s) = motorUpdateKey s + length (filter motor_merged es)"
  by (induction es arbitrary: s) (simp_all add: orch_step_key)

text \<open>
  Claim C6. On each of the three merge paths (the direct motor-only fetch, the fallback poller,
  a message from the worker) the motor update key goes up by exactly 1 when the payload carries
  motor data and stays as it is otherwise: after a failed fetch, after a payload without motor
  data, after an \<^verbatim>\<open>error\<close> message. Over any sequence of events the key is its old value plus
  the number of merged motor updates, so it never decreases.
\<close>

theorem C6_update_key:
  "motorUpdateKey (fetchMotorDataOnly_resume outcome s)
     = motorUpdateKey s + (if carries_motor_data outcome then 1 else 0)
   \<and> motorUpdateKey (fallback_resume outcome s)
     = motorUpdateKey s + (if carries_motor_data outcome then 1 else 0)
   \<and> motorUpdateKey (on_worker_message (MotorDataMsg md ps ts) s)
     = motorUpdateKey s + (if md \<noteq> None then 1 else 0)
   \<and> motorUpdateKey (on_worker_message (ErrorMsg txt) s) = motorUpdateKey s
   \<and> motorUpdateKey (orch_run es s) = motorUpdateKey s + length (filter motor_merged es)
   \<and> motorUpdateKey s \<le> motorUpdateKey (orch_run es s)"
proof -
  have "motorUpdateKey (on_worker_message (MotorDataMsg md ps ts) s)
          = motorUpdateKey s + (if md \<noteq> None then 1 else 0)"
    using worker_message_key [of "MotorDataMsg md ps ts" s] by simp
  moreover have "motorUpdateKey (on_worker_message (ErrorMsg txt) s) = motorUpdateKey s"
    by simp
  ultimately show ?thesis
    by (simp only: motor_only_key fallback_key orch_run_key) simp
qed

text \<open>
  Claim C5 fails for a motor update that arrives from the worker: the handler also merges the
  message's \<^verbatim>\<open>pingStatus\<close> into the snapshot, so the connectivity changes.
\<close>

theorem C5_worker_merge_counterexample:
  "pingStatus (robotData (on_worker_message
       (MotorDataMsg (Some Map.empty) (Some [''base1'' \<mapsto> True]) 0)
       (entered \<lparr>pingStatus = Some Map.empty, robotStatus = None,
                 cleaningDeviceStatus = None, motorData = None\<rparr> [] None True)))
   \<noteq> pingStatus (robotData
       (entered \<lparr>pingStatus = Some Map.empty, robotStatus = None,
                 cleaningDeviceStatus = None, motorData = None\<rparr> [] None True))"
proof -
  have "[''base1'' \<mapsto> True] ''base1'' \<noteq> (Map.empty :: string \<rightharpoonup> bool) ''base1''"
    by simp
  then have "[''base1'' \<mapsto> True] \<noteq> (Map.empty :: string \<rightharpoonup> bool)"
    by metis
  then show ?thesis
    by (simp add: entered_def or_empty_def Let_def)
qed

text \<open>
  Claim C5, amended. A successful general-status update leaves \<open>motorData\<close> as it was. A motor
  update through the direct motor-only fetch or through the fallback poller replaces
  \<open>motorData\<close> and nothing else. A motor update from the worker replaces \<open>motorData\<close> and
  overlays the connectivity entries the message carries on the snapshot's connectivity;
  \<open>robotStatus\<close> and \<open>cleaningDeviceStatus\<close> stay as they were.
\<close>

theorem C5_merge_frames:
  "motorData (robotData (fetchGeneralData_resume time (Parsed d) s)) = motorData (robotData s)
   \<and> (motor_data d = Some m \<longrightarrow>
        robotData (fetchMotorDataOnly_resume (Parsed d) s) = (robotData s)\<lparr>motorData := Some m\<rparr>
      \<and> robotData (fallback_resume (Parsed d) s) = (robotData s)\<lparr>motorData := Some m\<rparr>)
   \<and> robotData (on_worker_message (MotorDataMsg (Some m) (Some p) ts) s)
       = (robotData s)\<lparr>motorData := Some m,
                        pingStatus := Some (or_empty (pingStatus (robotData s)) ++ p)\<rparr>
   \<and> robotData (on_worker_message (MotorDataMsg (Some m) None ts) s)
       = (robotData s)\<lparr>motorData := Some m\<rparr>"
  by (simp add: general_merge_def motor_merge_frame Let_def)

theorem C5_merge_frames_witness:
  "motor_data \<lparr>ping_status = None, robot_status = None, cleaning_device_status = None,
               motor_data = Some [''base1'' \<mapsto> True]\<rparr> = Some [''base1'' \<mapsto> True]
   \<and> robotData (fallback_resume
         (Parsed \<lparr>ping_status = None, robot_status = None, cleaning_device_status = None,
                  motor_data = Some [''base1'' \<mapsto> True]\<rparr>)
         (entered \<lparr>pingStatus = Some Map.empty, robotStatus = None,
                   cleaningDeviceStatus = None, motorData = None\<rparr> [] None True))
     = \<lparr>pingStatus = Some Map.empty, robotStatus = None,
        cleaningDeviceStatus = None, motorData = Some [''base1'' \<mapsto> True]\<rparr>"
  using C5_merge_frames [of "''now''"
          "\<lparr>ping_status = None, robot_status = None, cleaning_device_status = None,
            motor_data = Some [''base1'' \<mapsto> True]\<rparr>"
          "entered \<lparr>pingStatus = Some Map.empty, robotStatus = None,
                   cleaningDeviceStatus = None, motorData = None\<rparr> [] None True"
          "[''base1'' \<mapsto> True]"]
  by (simp add: entered_def)

theorem C6_update_key_witness:
  "motorUpdateKey (orch_run
      [FallbackSettled (Parsed \<lparr>ping_status = None, robot_status = None,
                                cleaning_device_status = None,
                                motor_data = Some [''base1'' \<mapsto> True]\<rparr>),
       FallbackSettled (NotOk 503),
       WorkerMessage (MotorDataMsg (Some [''base1'' \<mapsto> False]) (Some Map.empty) 7),
       WorkerMessage (ErrorMsg ''Failed to fetch''),
       MotorOnlySettled (Parsed \<lparr>ping_status = None, robot_status = None,
                                 cleaning_device_status = None, motor_data = None\<rparr>)]
      (entered \<lparr>pingStatus = None, robotStatus = None,
                cleaningDeviceStatus = None, motorData = None\<rparr> [] None True)) = 2"
  using C6_update_key [of "NotOk 503"
      "entered \<lparr>pingStatus = None, robotStatus = None,
                cleaningDeviceStatus = None, motorData = None\<rparr> [] None True"
      None None 0 "[]"
      "[FallbackSettled (Parsed \<lparr>ping_status = None, robot_status = None,
                                cleaning_device_status = None,
                                motor_data = Some [''base1'' \<mapsto> True]\<rparr>),
       FallbackSettled (NotOk 503),
       WorkerMessage (MotorDataMsg (Some [''base1'' \<mapsto> False]) (Some Map.empty) 7),
       WorkerMessage (ErrorMsg ''Failed to fetch''),
       MotorOnlySettled (Parsed \<lparr>ping_status = None, robot_status = None,
                                 cleaning_device_status = None, motor_data = None\<rparr>)]"]
  by (simp add: entered_def)

section \<open>Formatting and classifying: properties\<close>

lemma digits_small: "n < 10 \<Longrightarrow> digits n = [digit_char n]"
  by (simp add: digits.simps)

lemma digits_large: "10 \<le> n \<Longrightarrow> digits n = digits (n div 10) @ [digit_char n]"
  by (subst digits.simps) simp

lemma is_digit_digit_char: "is_digit (digit_char n)"
proof -
  define k where "k = n mod 10"
  have "k < 10"
    by (simp add: k_def)
  then have "k = 0 \<or> k = 1 \<or> k = 2 \<or> k = 3 \<or> k = 4 \<or> k = 5 \<or> k = 6 \<or> k = 7
      \<or> k = 8 \<or> k = 9"
    by arith
  then have "is_digit (''0123456789'' ! k)"
    by (auto simp add: is_digit_def)
  then show ?thesis
    by (simp add: digit_char_def k_def)
qed

lemma digits_all: "list_all is_digit (digits n)"
proof (induction n rule: digits.induct)
  case (1 n)
  show ?case
  proof (cases "n < 10")
    case True
    then show ?thesis
      using is_digit_digit_char [of n] by (simp add: digits_small)
  next
    case False
    with 1 show ?thesis
      using is_digit_digit_char [of n] by (simp add: digits_large)
  qed
qed

lemma digits_nonempty: "digits n \<noteq> []"
  by (cases "n < 10") (simp_all add: digits_small digits_large)

lemma digits_bounds:
  "0 < n \<Longrightarrow> 10 ^ (length (digits n) - 1) \<le> n \<and> n < 10 ^ length (digits n)"
proof (induction n rule: digits.induct)
  case (1 n)
  show ?case
  proof (cases "n < 10")
    case True
    with 1 show ?thesis by (simp add: digits_small)
  next
    case False
    then have pos: "0 < n div 10" by simp
    from 1(1) [OF False pos]
    have lo: "10 ^ (length (digits (n div 10)) - 1) \<le> n div 10"
      and hi: "n div 10 < 10 ^ length (digits (n div 10))"
      by simp_all
    have len: "length (digits n) = Suc (length (digits (n div 10)))"
      using False by (simp add: digits_large)
    have ne: "0 < length (digits (n div 10))"
      using digits_nonempty [of "n div 10"] by simp
    from lo have "10 * 10 ^ (length (digits (n div 10)) - 1) \<le> n"
      by linarith
    then have a: "10 ^ length (digits (n div 10)) \<le> n"
      using ne by (cases "length (digits (n div 10))") simp_all
    from hi have b: "n < 10 * 10 ^ length (digits (n div 10))"
      by linarith
    from a b show ?thesis
      by (simp add: len)
  qed
qed

lemma digits_three:
  assumes "100 \<le> n" and "n < 1000"
  shows "\<exists>a b c. digits n = [a, b, c] \<and> is_digit a \<and> is_digit b \<and> is_digit c"
proof -
  have 1: "digits n = digits (n div 10) @ [digit_char n]"
    using assms by (simp add: digits_large)
  have 2: "digits (n div 10) = digits (n div 10 div 10) @ [digit_char (n div 10)]"
    using assms by (simp add: digits_large)
  have 3: "digits (n div 10 div 10) = [digit_char (n div 10 div 10)]"
    using assms by (simp add: digits_small)
  show ?thesis
    unfolding 1 2 3 using is_digit_digit_char by simp
qed

lemma not_digit [simp]: "\<not> is_digit CHR ''.''" "\<not> is_digit CHR ''-''" "\<not> is_digit CHR ''e''"
  "is_digit CHR ''0''"
  by (simp_all add: is_digit_def)

lemma unsigned_sign_prefix:
  assumes "t \<noteq> []" and "is_digit (hd t)"
  shows "unsigned (sign_prefix x @ t) = t"
proof (cases t)
  case Nil
  with assms show ?thesis by simp
next
  case (Cons c cs)
  with assms have "c \<noteq> CHR ''-''"
    by auto
  with Cons show ?thesis
    by (simp add: unsigned_def sign_prefix_def)
qed

lemma fixed_point_formI:
  assumes "ip \<noteq> []" and "list_all is_digit ip" and "length fp = f" and "list_all is_digit fp"
  shows "fixed_point_form f (sign_prefix x @ ip @ ''.'' @ fp)"
proof -
  have d: "is_digit (hd (ip @ ''.'' @ fp))"
    using assms(1,2) by (cases ip) simp_all
  have u: "unsigned (sign_prefix x @ ip @ ''.'' @ fp) = ip @ ''.'' @ fp"
    using unsigned_sign_prefix [of "ip @ ''.'' @ fp" x] d assms(1) by simp
  have all: "\<And>c. c \<in> set ip \<Longrightarrow> is_digit c"
    using assms(2) by (simp add: list_all_iff)
  have tw: "takeWhile is_digit (ip @ ''.'' @ fp) = ip"
    using all by (simp add: takeWhile_append2)
  have dw: "dropWhile is_digit (ip @ ''.'' @ fp) = ''.'' @ fp"
    using all by (simp add: dropWhile_append2)
  show ?thesis
    unfolding fixed_point_form_def u Let_def tw dw using assms by simp
qed

lemma toFixed_form:
  assumes "0 < f" and "\<bar>x\<bar> < 10 ^ 21"
  shows "fixed_point_form f (toFixed big f (Finite x))"
proof -
  define n where "n = round_half_up (\<bar>x\<bar> * 10 ^ f)"
  define m where "m = (if n = 0 then ''0'' else digits n)"
  define m' where "m' = pad_zeros (f + 1) m"
  have md: "list_all is_digit m"
    by (simp add: m_def digits_all)
  have m'd: "list_all is_digit m'"
    using md by (auto simp add: m'_def pad_zeros_def list_all_iff)
  have len: "f + 1 \<le> length m'"
    by (simp add: m'_def pad_zeros_def)
  have eq: "toFixed big f (Finite x) =
      sign_prefix x @ take (length m' - f) m' @ ''.'' @ drop (length m' - f) m'"
    using assms by (simp add: Let_def n_def m_def m'_def)
  have 1: "take (length m' - f) m' \<noteq> []"
    using len by auto
  have 2: "list_all is_digit (take (length m' - f) m')"
    using m'd by (auto simp: list_all_iff dest: in_set_takeD)
  have 3: "length (drop (length m' - f) m') = f"
    using len by simp
  have 4: "list_all is_digit (drop (length m' - f) m')"
    using m'd by (auto simp: list_all_iff dest: in_set_dropD)
  show ?thesis
    unfolding eq by (rule fixed_point_formI [OF 1 2 3 4])
qed

lemma round_half_up_bounds:
  assumes "of_nat a \<le> z" and "z < of_nat b"
  shows "a \<le> round_half_up z \<and> round_half_up z \<le> b"
proof -
  have "of_int (int a) \<le> z + 1 / 2"
    using assms(1) by simp
  then have lo: "int a \<le> \<lfloor>z + 1 / 2\<rfloor>"
    by (simp add: le_floor_iff)
  have "z + 1 / 2 < of_int (int b) + 1"
    using assms(2) by simp
  then have "\<lfloor>z + 1 / 2\<rfloor> \<le> int b"
    by (subst floor_le_iff) simp
  with lo show ?thesis
    unfolding round_half_up_def by linarith
qed

lemma exponent10_large:
  assumes "1000 < y"
  shows "3 \<le> exponent10 y
       \<and> 10 ^ nat (exponent10 y) \<le> y \<and> y < 10 ^ (nat (exponent10 y) + 1)"
proof -
  define N where "N = nat \<lfloor>y\<rfloor>"
  define L where "L = length (digits N)"
  have fl: "1000 \<le> \<lfloor>y\<rfloor>"
    using assms by (simp add: le_floor_iff)
  then have N: "1000 \<le> N"
    unfolding N_def by linarith
  then have "0 < N" by simp
  from digits_bounds [OF this]
  have lo: "10 ^ (L - 1) \<le> N" and hi: "N < 10 ^ L"
    by (simp_all add: L_def)
  have "(10::nat) ^ 3 < 10 ^ L"
    using N hi by simp
  then have L: "3 < L"
    by (simp only: power_strict_increasing_iff) 
  have e: "exponent10 y = int L - 1"
    using assms by (simp add: exponent10_def N_def L_def)
  have ne: "nat (exponent10 y) = L - 1"
    using L by (simp add: e)
  have nonneg: "0 \<le> \<lfloor>y\<rfloor>"
    using fl by linarith
  have ofN: "(of_nat N :: rat) = of_int \<lfloor>y\<rfloor>"
    unfolding N_def using nonneg by (simp only: of_nat_nat)
  have Ny: "of_nat N \<le> y"
    unfolding ofN by (rule of_int_floor_le)
  have yN: "y < of_nat N + 1"
    unfolding ofN by linarith
  have "(10::rat) ^ (L - 1) = of_nat (10 ^ (L - 1))"
    by simp
  also have "\<dots> \<le> of_nat N"
    using lo by (simp only: of_nat_le_iff)
  also note Ny
  finally have a: "(10::rat) ^ (L - 1) \<le> y" .
  have "N + 1 \<le> 10 ^ L"
    using hi by simp
  then have "(of_nat (N + 1) :: rat) \<le> of_nat (10 ^ L)"
    by (simp only: of_nat_le_iff)
  then have "of_nat N + 1 \<le> (10::rat) ^ L"
    by simp
  with yN have b: "y < (10::rat) ^ L"
    by linarith
  have L1: "L - 1 + 1 = L"
    using L by simp
  have e3: "3 \<le> exponent10 y"
    using L by (simp add: e)
  from a b e3 show ?thesis
    unfolding ne L1 by simp
qed

lemma exponential_formI:
  assumes "is_digit a" and "is_digit b" and "is_digit c" and "0 \<le> e"
  shows "exponential_form 2
           (sign_prefix x @ [a] @ ''.'' @ [b, c] @ ''e'' @ ''+'' @ digits (nat e))"
proof -
  have "unsigned (sign_prefix x @ ([a] @ ''.'' @ [b, c] @ ''e'' @ ''+'' @ digits (nat e)))
          = [a] @ ''.'' @ [b, c] @ ''e'' @ ''+'' @ digits (nat e)"
    by (rule unsigned_sign_prefix) (simp_all add: assms)
  then show ?thesis
    using assms digits_all [of "nat e"] digits_nonempty [of "nat e"]
    by (simp add: exponential_form_def)
qed

lemma toExponential_form:
  assumes "1000 < \<bar>x\<bar>"
  shows "exponential_form 2 (toExponential 2 (Finite x))"
proof -
  define y where "y = \<bar>x\<bar>"
  define e0 where "e0 = exponent10 y"
  define k where "k = nat (e0 - 2)"
  define z where "z = y / 10 ^ k"
  define n0 where "n0 = round_half_up z"
  have y: "1000 < y"
    using assms by (simp add: y_def)
  from exponent10_large [OF y]
  have e0: "3 \<le> e0" and lo: "10 ^ nat e0 \<le> y" and hi: "y < 10 ^ (nat e0 + 1)"
    by (simp_all add: e0_def)
  have ne: "nat e0 = k + 2"
    using e0 by (simp add: k_def)
  have p: "(0::rat) < 10 ^ k"
    by simp
  have "100 * 10 ^ k \<le> y"
    using lo by (simp add: ne)
  then have z_lo: "100 \<le> z"
    unfolding z_def using p by (simp add: pos_le_divide_eq)
  have "y < 1000 * 10 ^ k"
    using hi by (simp add: ne)
  then have z_hi: "z < 1000"
    unfolding z_def using p by (simp add: pos_divide_less_eq)
  have "100 \<le> round_half_up z \<and> round_half_up z \<le> 1000"
    by (rule round_half_up_bounds) (use z_lo z_hi in simp_all)
  then have n0: "100 \<le> n0" "n0 \<le> 1000"
    by (simp_all add: n0_def)
  have sc: "scale10 y (e0 - int 2) = z"
    using e0 by (simp add: scale10_def z_def k_def)
  have y0: "y \<noteq> 0"
    using y by simp
  have eq: "toExponential 2 (Finite x) =
      (if n0 = 1000
       then sign_prefix x @ take 1 (digits 100) @ ''.'' @ drop 1 (digits 100) @ ''e''
              @ (if 0 \<le> e0 + 1 then ''+'' else ''-'') @ digits (nat \<bar>e0 + 1\<bar>)
       else sign_prefix x @ take 1 (digits n0) @ ''.'' @ drop 1 (digits n0) @ ''e''
              @ (if 0 \<le> e0 then ''+'' else ''-'') @ digits (nat \<bar>e0\<bar>))"
    using y0 sc
    by (simp add: Let_def y_def [symmetric] e0_def [symmetric] n0_def [symmetric])
  show ?thesis
  proof (cases "n0 = 1000")
    case True
    obtain a b c where d: "digits 100 = [a, b, c]" "is_digit a" "is_digit b" "is_digit c"
      using digits_three [of 100] by auto
    have "0 \<le> e0 + 1"
      using e0 by simp
    from exponential_formI [OF d(2-4) this, of x] True e0 d(1) show ?thesis
      unfolding eq by simp
  next
    case False
    with n0 have "n0 < 1000" by simp
    from digits_three [OF n0(1) this]
    obtain a b c where d: "digits n0 = [a, b, c]" "is_digit a" "is_digit b" "is_digit c"
      by auto
    have "0 \<le> e0"
      using e0 by simp
    from exponential_formI [OF d(2-4) this, of x] False e0 d(1) show ?thesis
      unfolding eq by simp
  qed
qed

lemma floor_numeral_div: "\<lfloor>(numeral a :: rat) / numeral b\<rfloor> = numeral a div numeral b"
  using floor_divide_of_int_eq [of "numeral a" "numeral b", where ?'a = rat] by simp

lemmas evals = sign_prefix_def round_half_up_def pad_zeros_def exponent10_def scale10_def
  digits_large digits_small digit_char_def floor_numeral_div Let_def

lemma Service_format_sentinels:
  "Service_formatMotorValue big JUndefined = ''N/A''"
  "Service_formatMotorValue big JNull = ''N/A''"
  "Service_formatMotorValue big (JString s) = ''Invalid''"
  "Service_formatMotorValue big (JBoolean b) = ''Invalid''"
  "Service_formatMotorValue big (JNumber NaN) = ''NaN''"
  "Service_formatMotorValue big (JNumber PosInf) = ''Infinity''"
  "Service_formatMotorValue big (JNumber NegInf) = ''-Infinity''"
  by (simp_all add: Service_formatMotorValue_def)

lemma Detail_format_sentinels:
  "Detail_formatMotorValue big JUndefined = ''N/A''"
  "Detail_formatMotorValue big JNull = ''N/A''"
  "Detail_formatMotorValue big (JString s) = ''Invalid''"
  "Detail_formatMotorValue big (JBoolean b) = ''Invalid''"
  by (simp_all add: Detail_formatMotorValue_def)

lemma Service_format_large:
  "1000 < \<bar>x\<bar> \<Longrightarrow> exponential_form 2 (Service_formatMotorValue big (JNumber (Finite x)))"
  using toExponential_form [of x]
  by (simp add: Service_formatMotorValue_def del: toExponential.simps)

lemma Service_format_small:
  assumes "\<bar>x\<bar> \<le> 1000"
  shows "fixed_point_form 3 (Service_formatMotorValue big (JNumber (Finite x)))"
proof -
  have "\<bar>x\<bar> < 10 ^ 21"
    using assms by simp
  from toFixed_form [OF _ this, of 3 big] assms show ?thesis
    by (simp add: Service_formatMotorValue_def del: toFixed.simps)
qed

lemma Detail_format_finite:
  "\<bar>x\<bar> < 10 ^ 21 \<Longrightarrow> fixed_point_form 2 (Detail_formatMotorValue big (JNumber (Finite x)))"
  using toFixed_form [of 2 x big]
  by (simp add: Detail_formatMotorValue_def del: toFixed.simps)

lemma Service_format_examples:
  "Service_formatMotorValue big (JNumber (Finite (15004 / 10))) = ''1.50e+3''"
  "Service_formatMotorValue big
     (JNumber (Finite (3299414492630221 / 2199023255552))) = ''1.50e+3''"
  "Service_formatMotorValue big (JNumber (Finite (12345 / 100000))) = ''0.123''"
  "Service_formatMotorValue big
     (JNumber (Finite (2223877495995551 / 18014398509481984))) = ''0.123''"
  by (simp_all add: Service_formatMotorValue_def evals)

lemma Component_format_same:
  "Component_formatMotorValue big v = Service_formatMotorValue big v"
  by (simp add: Component_formatMotorValue_def Service_formatMotorValue_def)

text \<open>
  Claim C7 fails for the formatter of \<^verbatim>\<open>MotorDetailComponent\<close>, which the claim names: it renders
  1500.4, whose magnitude exceeds 1000, as 1500.40 and not in exponential form.
\<close>

theorem C7_detail_formatter_counterexample:
  "1000 < \<bar>15004 / 10 :: rat\<bar>
   \<and> Detail_formatMotorValue (\<lambda>y. []) (JNumber (Finite (15004 / 10))) = ''1500.40''
   \<and> \<not> exponential_form 2
         (Detail_formatMotorValue (\<lambda>y. []) (JNumber (Finite (15004 / 10))))"
  by (simp add: Detail_formatMotorValue_def evals)
     (simp add: exponential_form_def unsigned_def is_digit_def)

text \<open>
  Claim C7, amended. The formatters of \<^verbatim>\<open>MotorDataService\<close> and \<^verbatim>\<open>MotorDataComponent\<close> render
  an absent or null input as N/A and an input that is not a number as Invalid; a finite number
  of magnitude above 1000 in exponential form with 2 fractional digits, every other finite
  number in fixed-point form with 3 fractional digits (1500.4 as 1.50e+3 and 0.12345 as 0.123,
  for the decimal values and for the doubles nearest to them); and NaN and the infinities by
  their names. The formatter of \<^verbatim>\<open>MotorDetailComponent\<close> has the same two sentinels and renders
  every finite number below \<open>10^21\<close> in magnitude in fixed-point form with 2 fractional digits.
\<close>

theorem C7_formatters:
  "Service_formatMotorValue big JUndefined = ''N/A''
   \<and> Service_formatMotorValue big JNull = ''N/A''
   \<and> Service_formatMotorValue big (JString s) = ''Invalid''
   \<and> Service_formatMotorValue big (JBoolean b) = ''Invalid''
   \<and> (1000 < \<bar>x\<bar> \<longrightarrow>
         exponential_form 2 (Service_formatMotorValue big (JNumber (Finite x))))
   \<and> (\<bar>x\<bar> \<le> 1000 \<longrightarrow>
         fixed_point_form 3 (Service_formatMotorValue big (JNumber (Finite x))))
   \<and> Service_formatMotorValue big (JNumber (Finite (15004 / 10))) = ''1.50e+3''
   \<and> Service_formatMotorValue big
         (JNumber (Finite (3299414492630221 / 2199023255552))) = ''1.50e+3''
   \<and> Service_formatMotorValue big (JNumber (Finite (12345 / 100000))) = ''0.123''
   \<and> Service_formatMotorValue big
         (JNumber (Finite (2223877495995551 / 18014398509481984))) = ''0.123''
   \<and> Service_formatMotorValue big (JNumber NaN) = ''NaN''
   \<and> Service_formatMotorValue big (JNumber PosInf) = ''Infinity''
   \<and> Service_formatMotorValue big (JNumber NegInf) = ''-Infinity''
   \<and> Component_formatMotorValue big v = Service_formatMotorValue big v
   \<and> Detail_formatMotorValue big JUndefined = ''N/A''
   \<and> Detail_formatMotorValue big JNull = ''N/A''
   \<and> Detail_formatMotorValue big (JString s) = ''Invalid''
   \<and> Detail_formatMotorValue big (JBoolean b) = ''Invalid''
   \<and> (\<bar>x\<bar> < 10 ^ 21 \<longrightarrow>
         fixed_point_form 2 (Detail_formatMotorValue big (JNumber (Finite x))))"
  using Service_format_large [of x big] Service_format_small [of x big]
    Detail_format_finite [of x big] Service_format_examples [of big]
  by (simp only: Service_format_sentinels Detail_format_sentinels Component_format_same) simp

theorem C7_formatters_witness:
  "1000 < \<bar>- (99995 / 10) :: rat\<bar>
   \<and> exponential_form 2
         (Service_formatMotorValue (\<lambda>y. []) (JNumber (Finite (- (99995 / 10)))))
   \<and> Service_formatMotorValue (\<lambda>y. []) (JNumber (Finite (- (99995 / 10)))) = ''-1.00e+4''
   \<and> \<bar>1 / 2 :: rat\<bar> \<le> 1000
   \<and> fixed_point_form 3 (Service_formatMotorValue (\<lambda>y. []) (JNumber (Finite (1 / 2))))
   \<and> Service_formatMotorValue (\<lambda>y. []) (JNumber (Finite (1 / 2))) = ''0.500''"
proof -
  have a: "Service_formatMotorValue (\<lambda>y. []) (JNumber (Finite (- (99995 / 10)))) = ''-1.00e+4''"
    by (simp add: Service_formatMotorValue_def evals)
  have b: "Service_formatMotorValue (\<lambda>y. []) (JNumber (Finite (1 / 2))) = ''0.500''"
    by (simp add: Service_formatMotorValue_def evals)
  have c: "1000 < \<bar>- (99995 / 10) :: rat\<bar>" "\<bar>1 / 2 :: rat\<bar> \<le> 1000"
    by simp_all
  from C7_formatters [of "\<lambda>y. []" "[]" True "- (99995 / 10)" JNull] c(1)
  have d: "exponential_form 2
         (Service_formatMotorValue (\<lambda>y. []) (JNumber (Finite (- (99995 / 10)))))"
    by blast
  from C7_formatters [of "\<lambda>y. []" "[]" True "1 / 2" JNull] c(2)
  have e: "fixed_point_form 3 (Service_formatMotorValue (\<lambda>y. []) (JNumber (Finite (1 / 2))))"
    by blast
  from a b c d e show ?thesis
    by blast
qed

text \<open>
  Claim C8 fails for the classifier of \<^verbatim>\<open>MotorDetailComponent\<close>, which the claim names: for the
  kind \<^verbatim>\<open>position\<close> it returns false whatever the value, here 200000.
\<close>

theorem C8_detail_classifier_counterexample:
  "100000 < \<bar>200000 :: rat\<bar>
   \<and> \<not> Detail_isMotorValueAbnormal (\<lambda>s. NaN) (JNumber (Finite 200000)) ''position''"
  by (simp add: Detail_isMotorValueAbnormal_def)

text \<open>
  Claim C8, amended. For every number \<open>n\<close>, finite or not, the classifiers of
  \<^verbatim>\<open>MotorDataService\<close> and of \<^verbatim>\<open>MotorDataComponent\<close> return true exactly when \<open>n\<close> exceeds the
  ceiling of its kind: \<open>n > 5\<close> for a current, \<open>|n| > 1000\<close> for a velocity and \<open>|n| > 100000\<close>
  for a position (NaN exceeds nothing, an infinity exceeds every ceiling in magnitude). The
  classifier of \<^verbatim>\<open>MotorDetailComponent\<close> does so for a current and a velocity and returns false
  for every position. All three return false for an absent or null value, whatever the kind.
\<close>

theorem C8_classifiers:
  "Service_isMotorValueAbnormal str (JNumber (Finite q)) ''current'' = (5 < q)
   \<and> Service_isMotorValueAbnormal str (JNumber (Finite q)) ''velocity'' = (1000 < \<bar>q\<bar>)
   \<and> Service_isMotorValueAbnormal str (JNumber (Finite q)) ''position'' = (100000 < \<bar>q\<bar>)
   \<and> Component_isMotorValueAbnormal str (JNumber (Finite q)) ''current'' = (5 < q)
   \<and> Component_isMotorValueAbnormal str (JNumber (Finite q)) ''velocity'' = (1000 < \<bar>q\<bar>)
   \<and> Component_isMotorValueAbnormal str (JNumber (Finite q)) ''position'' = (100000 < \<bar>q\<bar>)
   \<and> Detail_isMotorValueAbnormal str (JNumber (Finite q)) ''current'' = (5 < q)
   \<and> Detail_isMotorValueAbnormal str (JNumber (Finite q)) ''velocity'' = (1000 < \<bar>q\<bar>)
   \<and> Detail_isMotorValueAbnormal str (JNumber (Finite q)) ''position'' = False
   \<and> Service_isMotorValueAbnormal str (JNumber n) ''current'' = exceeds n 5
   \<and> Service_isMotorValueAbnormal str (JNumber n) ''velocity'' = magnitude_exceeds n 1000
   \<and> Service_isMotorValueAbnormal str (JNumber n) ''position'' = magnitude_exceeds n 100000
   \<and> Component_isMotorValueAbnormal str (JNumber n) ''current'' = exceeds n 5
   \<and> Component_isMotorValueAbnormal str (JNumber n) ''velocity'' = magnitude_exceeds n 1000
   \<and> Component_isMotorValueAbnormal str (JNumber n) ''position'' = magnitude_exceeds n 100000
   \<and> Detail_isMotorValueAbnormal str (JNumber n) ''current'' = exceeds n 5
   \<and> Detail_isMotorValueAbnormal str (JNumber n) ''velocity'' = magnitude_exceeds n 1000
   \<and> Detail_isMotorValueAbnormal str (JNumber n) ''position'' = False
   \<and> Service_isMotorValueAbnormal str JUndefined type = False
   \<and> Service_isMotorValueAbnormal str JNull type = False
   \<and> Component_isMotorValueAbnormal str JUndefined type = False
   \<and> Component_isMotorValueAbnormal str JNull type = False
   \<and> Detail_isMotorValueAbnormal str JUndefined type = False
   \<and> Detail_isMotorValueAbnormal str JNull type = False"
  by (cases n)
     (simp_all add: Service_isMotorValueAbnormal_def Component_isMotorValueAbnormal_def
        Detail_isMotorValueAbnormal_def)

theorem C8_classifiers_witness:
  "Service_isMotorValueAbnormal (\<lambda>s. NaN) (JNumber (Finite (- 1500))) ''velocity''
   \<and> \<not> Service_isMotorValueAbnormal (\<lambda>s. NaN) (JNumber (Finite (- 1500))) ''current''
   \<and> \<not> Service_isMotorValueAbnormal (\<lambda>s. NaN) (JNumber (Finite (- 1500))) ''position''
   \<and> Service_isMotorValueAbnormal (\<lambda>s. NaN) (JNumber PosInf) ''current''
   \<and> Service_isMotorValueAbnormal (\<lambda>s. NaN) (JNumber NegInf) ''position''
   \<and> \<not> Service_isMotorValueAbnormal (\<lambda>s. NaN) (JNumber NegInf) ''current''
   \<and> \<not> Service_isMotorValueAbnormal (\<lambda>s. NaN) (JNumber NaN) ''current''
   \<and> \<not> Service_isMotorValueAbnormal (\<lambda>s. NaN) (JNumber NaN) ''velocity''
   \<and> \<not> Service_isMotorValueAbnormal (\<lambda>s. NaN) (JNumber NaN) ''position''"
  using C8_classifiers [of "\<lambda>s. NaN" "- 1500" PosInf "''current''"]
    C8_classifiers [of "\<lambda>s. NaN" "- 1500" NegInf "''current''"]
    C8_classifiers [of "\<lambda>s. NaN" "- 1500" NaN "''current''"]
  by simp

end
